theory Spec2Isabelle
  imports Main "HOL-Library.Char_ord" "HOL-Library.List_Lexorder" "HOL-Library.FSet"
begin

section \<open>Data model\<close>

text \<open>
  The server keeps its persistent data in an SQL database (\<^verbatim>\<open>database.py\<close>) and its
  per-connection data in a session dictionary (\<^verbatim>\<open>app.py\<close>, \<^verbatim>\<open>events.py\<close>).
  A table is a list of rows in row-id order. Foreign keys to \<^verbatim>\<open>User\<close> are written
  as the user's name, which is unique and never changes. A Python exception is a value of
  \<open>exn\<close>; a function that can raise returns \<open>exn + 'a\<close>.
\<close>

datatype exn = ValueError | IndexError | KeyError | TypeError | OverflowError
  | DoesNotExist | IntegrityError | AttributeError

datatype status_type = Block | Friend | Request

record x3dh =
  x_sender :: string
  x_ik :: string
  x_spk :: string
  x_ek :: string
  x_key_tree :: "string list"
  x_position :: nat
  x_id :: int

record user =
  u_username :: string
  u_public_key :: string
  u_spk :: "string option"
  u_sig :: "string option"
  u_status :: string
  u_biography :: string
  u_profile_picture :: string
  u_own_storage :: string
  u_x3dh_requests :: "x3dh list"

record relation =
  from_user :: string
  to_user :: string
  status_code :: status_type

record dm =
  d_id :: int
  d_public_keys :: "string list"
  d_name :: "string option"
  d_created_at :: string

record message =
  m_id :: int
  m_dm :: int
  m_sender :: string
  m_message :: string
  m_signature :: string
  m_timestamp :: string
  m_delete_timestamp :: "string option"
  m_pinned :: bool

record reaction =
  r_id :: int
  r_message :: int
  r_sender :: string
  r_reaction :: string
  r_signature :: string

text \<open>The tables. \<open>userdm\<close> is the through table of \<^verbatim>\<open>DM.users\<close>.\<close>

record store =
  users :: "user list"
  relations :: "relation list"
  dms :: "dm list"
  userdm :: "(int \<times> string) list"
  messages :: "message list"
  reactions :: "reaction list"

text \<open>The dictionaries the queries return.\<close>

record reaction_dict =
  rd_id :: int
  rd_reaction :: string
  rd_signature :: string
  rd_sender :: string

record message_dict = message +
  md_reactions :: "reaction_dict list"

record dm_dict = dm +
  dd_users :: "string list"
  dd_latest_message :: "message_dict option"

record profile =
  p_username :: string
  p_public_key :: string
  p_spk :: "string option"
  p_sig :: "string option"
  p_status :: string
  p_biography :: string
  p_profile_picture :: string

text \<open>
  The session of one connection, as \<^verbatim>\<open>connect\<close> initialises it. The keys
  \<^verbatim>\<open>username\<close> and \<^verbatim>\<open>challenge_response\<close> are absent at first. A
  \<^verbatim>\<open>datetime\<close> is the number of microseconds since \<^verbatim>\<open>datetime(1,1,1)\<close>.
\<close>

record session =
  logged_in :: bool
  s_username :: "string option"
  challenge_response :: "string option"
  login_fails :: int
  lockout_start :: int

definition connect :: session where
  "connect = \<lparr>logged_in = False, s_username = None, challenge_response = None,
     login_fails = 0, lockout_start = 0\<rparr>"

text \<open>What a handler returns: \<^verbatim>\<open>(success, result)\<close>, or an exception.\<close>

datatype result = RBool bool | RStr string | RInt int | RProfile profile
  | RDm dm_dict | RMessages "message_dict list"

type_synonym outcome = "exn + bool \<times> result"

record response =
  success :: bool
  result :: result

text \<open>
  The steps of a coroutine started as a background task, in the order the coroutine runs
  them: a sleep of so many seconds, an emit of an event to a room (with the connection
  skipped, if any), the removal of an entry of the registry of scheduled messages, and
  the database calls of a message's task (\<open>Delete_created_message\<close> deletes the
  message the task's own \<open>Create_message\<close> inserted). Payloads are left out.
\<close>

datatype step = Sleep int
  | Emit string "string option" "string option"
  | Del_scheduled int string int
  | Create_message int string string string int
  | Delete_created_message
  | Delete_message int

record scheduled =
  sc_message :: string
  sc_signature :: string
  sc_timestamp :: string
  sc_handle :: "step list"

text \<open>
  The server's state: the database, the presence map \<^verbatim>\<open>notifications.name_map\<close>,
  the registry \<^verbatim>\<open>events.scheduled_messages\<close> and the coroutines started with
  \<^verbatim>\<open>utils.start_background_task\<close>, oldest first.
\<close>

record state =
  db :: store
  name_map :: "string \<Rightarrow> string fset"
  scheduled_messages :: "int \<Rightarrow> string \<Rightarrow> (int \<times> scheduled) list"
  background_tasks :: "step list list"

section \<open>The decorators of events.py\<close>

definition error_wrap :: "outcome \<Rightarrow> response" where
  "error_wrap ret = (case ret of
      Inl ValueError \<Rightarrow> \<lparr>success = False, result = RStr ''Malformed data.''\<rparr>
    | Inl _ \<Rightarrow> \<lparr>success = False, result = RStr ''Internal server error.''\<rparr>
    | Inr (ok, v) \<Rightarrow> \<lparr>success = ok, result = v\<rparr>)"

text \<open>Python's \<^verbatim>\<open>str\<close> of an integer, for the message of the remaining tries.\<close>

fun str_nat :: "nat \<Rightarrow> string" where
  "str_nat n = (if n < 10 then [char_of (48 + n)]
     else str_nat (n div 10) @ [char_of (48 + n mod 10)])"

declare str_nat.simps [simp del]

definition str_int :: "int \<Rightarrow> string" where
  "str_int i = (if i < 0 then CHR ''-'' # str_nat (nat (- i)) else str_nat (nat i))"

text \<open>\<^verbatim>\<open>val[1] + "..."\<close>: concatenation raises unless the result is a string.\<close>

definition result_plus :: "result \<Rightarrow> string \<Rightarrow> exn + result" where
  "result_plus v s = (case v of RStr t \<Rightarrow> Inr (RStr (t @ s)) | _ \<Rightarrow> Inl TypeError)"

definition delta :: int where
  "delta = 60 * 1000000"

text \<open>
  \<^verbatim>\<open>login_fail_wrap\<close>. The wrapped handler \<open>f\<close> maps the server state and the
  session to the new ones and its outcome; \<open>now\<close> is \<^verbatim>\<open>datetime.now()\<close> at the
  call. An exception of the handler passes through without counting.
\<close>

definition login_fail_wrap ::
  "(state \<times> session \<Rightarrow> (state \<times> session) \<times> outcome) \<Rightarrow> int \<Rightarrow>
     state \<times> session \<Rightarrow> (state \<times> session) \<times> outcome" where
  "login_fail_wrap f now w =
    (if now - lockout_start (snd w) < delta
     then (w, Inr (False, RStr ''You have been locked out for 60 seconds.''))
     else case f w of
        (w1, Inl e) \<Rightarrow> (w1, Inl e)
      | ((st1, s1), Inr (ok, v)) \<Rightarrow>
          if \<not> ok then
            let s2 = s1\<lparr>login_fails := login_fails s1 + 1\<rparr> in
            if login_fails s2 \<ge> 10
            then (case result_plus v '' You have been locked out for 60 seconds.'' of
                    Inl e \<Rightarrow> ((st1, s2\<lparr>lockout_start := now\<rparr>), Inl e)
                  | Inr r \<Rightarrow> ((st1, s2\<lparr>lockout_start := now\<rparr>), Inr (False, r)))
            else (case result_plus v
                         ('' '' @ str_int (10 - login_fails s2) @ '' attempts left before lockout.'') of
                    Inl e \<Rightarrow> ((st1, s2), Inl e)
                  | Inr r \<Rightarrow> ((st1, s2), Inr (False, r)))
          else ((st1, s1), Inr (ok, v)))"

text \<open>
  \<^verbatim>\<open>login_required_wrap\<close> and \<^verbatim>\<open>check_keys\<close>. A payload is \<open>None\<close> when it is
  not a dictionary with exactly the keys the handler declares, and otherwise holds the
  values of those keys.
\<close>

definition login_required_wrap ::
  "(session \<Rightarrow> 'd \<Rightarrow> state \<Rightarrow> state \<times> outcome) \<Rightarrow> session \<Rightarrow> 'd \<Rightarrow> state \<Rightarrow> state \<times> outcome" where
  "login_required_wrap f s data st =
    (if \<not> logged_in s then (st, Inr (False, RStr ''Not logged in.'')) else f s data st)"

definition check_keys :: "('d \<Rightarrow> 'w \<Rightarrow> 'w \<times> outcome) \<Rightarrow> 'd option \<Rightarrow> 'w \<Rightarrow> 'w \<times> outcome" where
  "check_keys f data w =
    (case data of None \<Rightarrow> (w, Inr (False, RStr ''Invalid data format.'')) | Some d \<Rightarrow> f d w)"

section \<open>database.py: users\<close>

definition db_user_exists :: "store \<Rightarrow> string \<Rightarrow> bool" where
  "db_user_exists s username = (length (filter (\<lambda>u. u_username u = username) (users s)) \<noteq> 0)"

definition db_get_user :: "store \<Rightarrow> string \<Rightarrow> exn + user" where
  "db_get_user s username =
    (case filter (\<lambda>u. u_username u = username) (users s) of
       [] \<Rightarrow> Inl DoesNotExist | u # _ \<Rightarrow> Inr u)"

definition db_get_and_clear_x3dh :: "store \<Rightarrow> string \<Rightarrow> exn + store \<times> x3dh list" where
  "db_get_and_clear_x3dh s username =
    (case db_get_user s username of
       Inl e \<Rightarrow> Inl e
     | Inr u \<Rightarrow> Inr (s\<lparr>users := map (\<lambda>v. if u_username v = username
                                          then v\<lparr>u_x3dh_requests := []\<rparr> else v) (users s)\<rparr>,
                     u_x3dh_requests u))"

section \<open>notifications.py and utils.py\<close>

definition user_room :: "string \<Rightarrow> string" where
  "user_room username = ''ROOM_USER_'' @ username"

definition dm_room :: "int \<Rightarrow> string" where
  "dm_room dm_id = ''ROOM_DM_'' @ str_int dm_id @ ''_NOTIFICATION''"

definition is_user_online :: "state \<Rightarrow> string \<Rightarrow> bool" where
  "is_user_online st username = (fcard (name_map st username) > 0)"

definition start_background_task :: "step list \<Rightarrow> state \<Rightarrow> state" where
  "start_background_task coro st = st\<lparr>background_tasks := background_tasks st @ [coro]\<rparr>"

definition notify_x3dh :: "string \<Rightarrow> step list" where
  "notify_x3dh username = [Emit ''x3dh_notification'' (Some (user_room username)) None]"

definition notify_profile :: "string \<Rightarrow> step list" where
  "notify_profile sid = [Emit ''profile_notification'' None (Some sid)]"

definition delay_task :: "int \<Rightarrow> step list \<Rightarrow> step list" where
  "delay_task delay coro = Sleep delay # coro"

text \<open>
  \<^verbatim>\<open>login_join_rooms\<close>: the connection joins the presence map, and every pending X3DH
  bundle is taken from the user's inbox and sent five seconds later. (The rooms of the
  transport are not part of the state.)
\<close>

definition login_join_rooms :: "string \<Rightarrow> string \<Rightarrow> state \<Rightarrow> state \<times> (exn + unit)" where
  "login_join_rooms sid username st =
    (let st1 = st\<lparr>name_map := (name_map st)(username := finsert sid (name_map st username))\<rparr> in
     case db_get_and_clear_x3dh (db st1) username of
       Inl e \<Rightarrow> (st1, Inl e)
     | Inr (s', notifs) \<Rightarrow>
         (fold (\<lambda>notif. start_background_task (delay_task 5 (notify_x3dh username))) notifs
            (st1\<lparr>db := s'\<rparr>), Inr ()))"

section \<open>events.py: login\<close>

text \<open>
  \<open>gen\<close> is \<^verbatim>\<open>Ed25519.generate_challenge\<close> at this call: it draws a fresh key pair,
  so the model takes its result for the user's public key as given.
\<close>

definition login_body ::
  "(string \<Rightarrow> exn + string \<times> string) \<Rightarrow> string \<Rightarrow> state \<times> session \<Rightarrow> (state \<times> session) \<times> outcome" where
  "login_body gen username w =
    (let st = fst w; s = snd w in
     if \<not> db_user_exists (db st) username then (w, Inr (False, RStr ''User does not exist.''))
     else if logged_in s then (w, Inr (False, RStr ''Already logged in.''))
     else case db_get_user (db st) username of
        Inl e \<Rightarrow> (w, Inl e)
      | Inr u \<Rightarrow>
         (case gen (u_public_key u) of
            Inl e \<Rightarrow> (w, Inl e)
          | Inr (chal, resp) \<Rightarrow>
              ((st, s\<lparr>challenge_response := Some resp, s_username := Some username\<rparr>),
               Inr (True, RStr chal))))"

definition login_challenge_response_body ::
  "string \<Rightarrow> string \<Rightarrow> state \<times> session \<Rightarrow> (state \<times> session) \<times> outcome" where
  "login_challenge_response_body sid resp w =
    (let st = fst w; s = snd w in
     case challenge_response s of
       None \<Rightarrow> (w, Inr (False, RStr ''Not expecting a challenge response right now.''))
     | Some expected \<Rightarrow>
        (let s1 = s\<lparr>challenge_response := None\<rparr> in
         if expected \<noteq> resp then ((st, s1), Inr (False, RStr ''Incorrect response.''))
         else
          (let s2 = s1\<lparr>logged_in := True, login_fails := 0\<rparr> in
           (case s_username s2 of
             None \<Rightarrow> ((st, s2), Inl KeyError)
           | Some username \<Rightarrow>
              (case login_join_rooms sid username st of
                 (st1, Inl e) \<Rightarrow> ((st1, s2), Inl e)
               | (st1, Inr _) \<Rightarrow>
                  (case db_get_user (db st1) username of
                     Inl e \<Rightarrow> ((st1, s2), Inl e)
                   | Inr u \<Rightarrow>
                       (((if u_status u \<noteq> ''offline''
                          then start_background_task (notify_profile sid) st1 else st1), s2),
                        Inr (True, RBool True))))))))"

text \<open>The two events as registered: the decorators applied in the order of the source.\<close>

definition wrap_response :: "'w \<times> outcome \<Rightarrow> 'w \<times> response" where
  "wrap_response r = (fst r, error_wrap (snd r))"

definition login ::
  "(string \<Rightarrow> exn + string \<times> string) \<Rightarrow> int \<Rightarrow> string option \<Rightarrow> state \<times> session \<Rightarrow>
     (state \<times> session) \<times> response" where
  "login gen now data w = wrap_response (login_fail_wrap (check_keys (login_body gen) data) now w)"

definition login_challenge_response ::
  "string \<Rightarrow> int \<Rightarrow> string option \<Rightarrow> state \<times> session \<Rightarrow> (state \<times> session) \<times> response" where
  "login_challenge_response sid now data w =
     wrap_response (login_fail_wrap (check_keys (login_challenge_response_body sid) data) now w)"

section \<open>database.py: users, continued\<close>

definition db_create_user :: "store \<Rightarrow> string \<Rightarrow> string \<Rightarrow> string \<Rightarrow> string \<Rightarrow> string \<Rightarrow> exn + store" where
  "db_create_user s username public_key spk sig own_storage =
    (if db_user_exists s username then Inl IntegrityError
     else Inr (s\<lparr>users := users s @ [\<lparr>u_username = username, u_public_key = public_key,
        u_spk = Some spk, u_sig = Some sig, u_status = ''online'', u_biography = [],
        u_profile_picture = [], u_own_storage = own_storage, u_x3dh_requests = []\<rparr>]\<rparr>))"

text \<open>
  \<^verbatim>\<open>set_user_props\<close> with the keys \<^verbatim>\<open>get_keys\<close> kept of the payload: each key is
  written when present.
\<close>

record user_props =
  up_spk :: "string option"
  up_sig :: "string option"
  up_status :: "string option"
  up_biography :: "string option"
  up_profile_picture :: "string option"
  up_own_storage :: "string option"

definition update_user_from_dict :: "user_props \<Rightarrow> user \<Rightarrow> user" where
  "update_user_from_dict props u =
    u\<lparr>u_spk := (case up_spk props of None \<Rightarrow> u_spk u | Some v \<Rightarrow> Some v),
      u_sig := (case up_sig props of None \<Rightarrow> u_sig u | Some v \<Rightarrow> Some v),
      u_status := (case up_status props of None \<Rightarrow> u_status u | Some v \<Rightarrow> v),
      u_biography := (case up_biography props of None \<Rightarrow> u_biography u | Some v \<Rightarrow> v),
      u_profile_picture := (case up_profile_picture props of None \<Rightarrow> u_profile_picture u | Some v \<Rightarrow> v),
      u_own_storage := (case up_own_storage props of None \<Rightarrow> u_own_storage u | Some v \<Rightarrow> v)\<rparr>"

definition db_set_user_props :: "store \<Rightarrow> string \<Rightarrow> user_props \<Rightarrow> exn + store" where
  "db_set_user_props s username props =
    (case db_get_user s username of
       Inl e \<Rightarrow> Inl e
     | Inr u \<Rightarrow> Inr (s\<lparr>users := map (\<lambda>v. if u_username v = username
                                          then update_user_from_dict props v else v) (users s)\<rparr>))"

section \<open>database.py: relations\<close>

definition db_is_relation :: "store \<Rightarrow> string \<Rightarrow> string \<Rightarrow> status_type \<Rightarrow> bool" where
  "db_is_relation s username1 username2 status =
    (length (filter (\<lambda>r. from_user r = username1 \<and> to_user r = username2 \<and> status_code r = status)
       (relations s)) \<noteq> 0)"

text \<open>
  \<^verbatim>\<open>create_relation\<close>: both users are fetched first; the insert violates the primary key
  when the ordered pair has a row already, and the check constraint when the two users are
  the same.
\<close>

definition db_create_relation :: "store \<Rightarrow> string \<Rightarrow> string \<Rightarrow> status_type \<Rightarrow> exn + store" where
  "db_create_relation s username1 username2 status =
    (case db_get_user s username1 of
       Inl e \<Rightarrow> Inl e
     | Inr user1 \<Rightarrow>
        (case db_get_user s username2 of
           Inl e \<Rightarrow> Inl e
         | Inr user2 \<Rightarrow>
            if username1 = username2
               \<or> list_ex (\<lambda>r. from_user r = username1 \<and> to_user r = username2) (relations s)
            then Inl IntegrityError
            else Inr (s\<lparr>relations := relations s @
                   [\<lparr>from_user = username1, to_user = username2, status_code = status\<rparr>]\<rparr>)))"

definition db_delete_relation :: "store \<Rightarrow> string \<Rightarrow> string \<Rightarrow> exn + store" where
  "db_delete_relation s username1 username2 =
    (case filter (\<lambda>r. from_user r = username1 \<and> to_user r = username2) (relations s) of
       [] \<Rightarrow> Inl DoesNotExist
     | r # _ \<Rightarrow> Inr (s\<lparr>relations :=
          filter (\<lambda>r'. \<not> (from_user r' = from_user r \<and> to_user r' = to_user r)) (relations s)\<rparr>))"

definition db_set_relation_props :: "store \<Rightarrow> string \<Rightarrow> string \<Rightarrow> status_type \<Rightarrow> exn + store" where
  "db_set_relation_props s username1 username2 status =
    (case filter (\<lambda>r. from_user r = username1 \<and> to_user r = username2) (relations s) of
       [] \<Rightarrow> Inl DoesNotExist
     | r # _ \<Rightarrow> Inr (s\<lparr>relations :=
          map (\<lambda>r'. if from_user r' = from_user r \<and> to_user r' = to_user r
                     then r'\<lparr>status_code := status\<rparr> else r') (relations s)\<rparr>))"

text \<open>
  The rows of a left outer join: the matching rows of the joined table, or a single row
  of nulls when there is none.
\<close>

definition left_outer :: "'a list \<Rightarrow> 'a option list" where
  "left_outer rows = (if rows = [] then [None] else map Some rows)"

text \<open>
  \<^verbatim>\<open>get_of_status\<close>: every user is joined with the relations leaving it and, again,
  with the relations reaching it; a row is kept when the first relation reaches
  \<open>username\<close> or the second leaves \<open>username\<close>, with the status asked for. A name is
  listed once per row kept.
\<close>

definition db_get_of_status :: "store \<Rightarrow> string \<Rightarrow> status_type \<Rightarrow> string list" where
  "db_get_of_status s username status =
    concat (map (\<lambda>u.
      concat (map (\<lambda>rel.
        concat (map (\<lambda>rel2.
          if (case rel of None \<Rightarrow> False
              | Some r \<Rightarrow> to_user r = username \<and> status_code r = status)
             \<or> (case rel2 of None \<Rightarrow> False
              | Some r \<Rightarrow> from_user r = username \<and> status_code r = status)
          then [u_username u] else [])
          (left_outer (filter (\<lambda>r. to_user r = u_username u) (relations s)))))
        (left_outer (filter (\<lambda>r. from_user r = u_username u) (relations s)))))
      (users s))"

definition db_get_outgoing_of_status :: "store \<Rightarrow> string \<Rightarrow> status_type \<Rightarrow> exn + string list" where
  "db_get_outgoing_of_status s username status =
    (case db_get_user s username of
       Inl e \<Rightarrow> Inl e
     | Inr user \<Rightarrow> Inr (concat (map (\<lambda>u.
          map (\<lambda>r. u_username u)
            (filter (\<lambda>r. to_user r = u_username u \<and> from_user r = username \<and> status_code r = status)
               (relations s))) (users s))))"

definition db_get_incoming_of_status :: "store \<Rightarrow> string \<Rightarrow> status_type \<Rightarrow> exn + string list" where
  "db_get_incoming_of_status s username status =
    (case db_get_user s username of
       Inl e \<Rightarrow> Inl e
     | Inr user \<Rightarrow> Inr (concat (map (\<lambda>u.
          map (\<lambda>r. u_username u)
            (filter (\<lambda>r. from_user r = u_username u \<and> to_user r = username \<and> status_code r = status)
               (relations s))) (users s))))"

text \<open>\<^verbatim>\<open>utils.unfriend\<close>: deletes the directed edge that stores the friendship.\<close>

definition utils_unfriend :: "store \<Rightarrow> string \<Rightarrow> string \<Rightarrow> exn + store" where
  "utils_unfriend s u1 u2 =
    (if db_is_relation s u1 u2 Friend then db_delete_relation s u1 u2
     else db_delete_relation s u2 u1)"

section \<open>database.py: DMs\<close>

definition db_dm_exists :: "store \<Rightarrow> int \<Rightarrow> bool" where
  "db_dm_exists s dm_id = (length (filter (\<lambda>d. d_id d = dm_id) (dms s)) \<noteq> 0)"

definition db_user_in_dm :: "store \<Rightarrow> string \<Rightarrow> int \<Rightarrow> bool" where
  "db_user_in_dm s username dm_id =
    (length (filter (\<lambda>(i, n). i = dm_id \<and> n = username) (userdm s)) \<noteq> 0)"

definition db_is_individual_dm :: "store \<Rightarrow> int \<Rightarrow> bool" where
  "db_is_individual_dm s dm_id = (length (filter (\<lambda>(i, n). i = dm_id) (userdm s)) = 2)"

definition reaction_to_dict :: "reaction \<Rightarrow> reaction_dict" where
  "reaction_to_dict r = \<lparr>rd_id = r_id r, rd_reaction = r_reaction r,
     rd_signature = r_signature r, rd_sender = r_sender r\<rparr>"

definition model_to_dict :: "message \<Rightarrow> reaction_dict list \<Rightarrow> message_dict" where
  "model_to_dict m rs = message.extend m \<lparr>md_reactions = rs\<rparr>"

text \<open>The greatest of a non-empty list: SQL's \<^verbatim>\<open>MAX\<close>.\<close>

definition max_list :: "'a::linorder \<Rightarrow> 'a list \<Rightarrow> 'a" where
  "max_list x xs = fold max xs x"

text \<open>
  The rows of the latest-message query of \<^verbatim>\<open>get_dm\<close>: the messages of the DM whose
  timestamp is the greatest of the DM, each left-joined with its reactions. The query has
  no \<^verbatim>\<open>ORDER BY\<close>; its rows come in the order of the tables.
\<close>

definition latest_rows :: "store \<Rightarrow> int \<Rightarrow> (message \<times> reaction option) list" where
  "latest_rows s dm_id =
    (case filter (\<lambda>m. m_dm m = dm_id) (messages s) of
       [] \<Rightarrow> []
     | m0 # ms \<Rightarrow>
        concat (map (\<lambda>m.
            map (\<lambda>r. (m, r)) (left_outer (filter (\<lambda>r. r_message r = m_id m) (reactions s))))
          (filter (\<lambda>m. m_timestamp m = max_list (m_timestamp m0) (map m_timestamp ms))
             (m0 # ms))))"

text \<open>
  \<^verbatim>\<open>get_dm\<close>. Its first query \<open>q\<close> (\<open>dm_rows\<close>) joins the DM with its membership rows
  and their users; the rows come in the order of the users' ids, and \<^verbatim>\<open>q[0]\<close> raises when
  there is none. \<^verbatim>\<open>m.reaction\<close>
  raises on a row whose reaction is null; the source reads it on every row once the first
  row has a reaction.
\<close>

definition dm_rows :: "store \<Rightarrow> int \<Rightarrow> (dm \<times> string) list" where
  "dm_rows s dm_id =
    concat (map (\<lambda>d. concat (map (\<lambda>u.
        map (\<lambda>(i, n). (d, u_username u))
          (filter (\<lambda>(i, n). i = d_id d \<and> n = u_username u) (userdm s))) (users s)))
      (filter (\<lambda>d. d_id d = dm_id) (dms s)))"

definition db_get_dm :: "store \<Rightarrow> int \<Rightarrow> exn + dm_dict" where
  "db_get_dm s dm_id =
    (case dm_rows s dm_id of
       [] \<Rightarrow> Inl IndexError
     | (d, n) # q \<Rightarrow>
        (case latest_rows s dm_id of
           [] \<Rightarrow> Inr (dm.extend d \<lparr>dd_users = n # map snd q, dd_latest_message = None\<rparr>)
         | (m, None) # data \<Rightarrow>
             Inr (dm.extend d \<lparr>dd_users = n # map snd q,
                    dd_latest_message = Some (model_to_dict m [])\<rparr>)
         | (m, Some r) # data \<Rightarrow>
             if list_all (\<lambda>row. snd row \<noteq> None) data
             then Inr (dm.extend d \<lparr>dd_users = n # map snd q,
                    dd_latest_message = Some (model_to_dict m
                      (reaction_to_dict r # concat (map (\<lambda>row. case snd row of
                          None \<Rightarrow> [] | Some r' \<Rightarrow> [reaction_to_dict r']) data)))\<rparr>)
             else Inl AttributeError))"

definition db_leave_dm :: "store \<Rightarrow> int \<Rightarrow> string \<Rightarrow> exn + store" where
  "db_leave_dm s dm_id username =
    (case db_get_user s username of
       Inl e \<Rightarrow> Inl e
     | Inr u \<Rightarrow> Inr (s\<lparr>userdm := filter (\<lambda>(i, n). \<not> (n = username \<and> i = dm_id)) (userdm s)\<rparr>))"

definition db_set_dm_props :: "store \<Rightarrow> int \<Rightarrow> string option \<Rightarrow> exn + store" where
  "db_set_dm_props s dm_id name =
    (if \<not> db_dm_exists s dm_id then Inl DoesNotExist
     else Inr (s\<lparr>dms := map (\<lambda>d. if d_id d = dm_id then d\<lparr>d_name := name\<rparr> else d) (dms s)\<rparr>))"

text \<open>
  A new row's id: one more than the greatest id of the table. \<^verbatim>\<open>create_dm\<close> inserts the
  membership rows of the existing users among \<open>usernames\<close> in the order of their names.
\<close>

definition next_id :: "int list \<Rightarrow> int" where
  "next_id ids = max_list 0 ids + 1"

definition db_create_dm :: "store \<Rightarrow> string list \<Rightarrow> string list \<Rightarrow> string \<Rightarrow> store \<times> int" where
  "db_create_dm s usernames public_keys now =
    (let i = next_id (map d_id (dms s)) in
     (s\<lparr>dms := dms s @ [\<lparr>d_id = i, d_public_keys = public_keys, d_name = None, d_created_at = now\<rparr>],
        userdm := userdm s @
          map (\<lambda>n. (i, n))
            (sort (map u_username (filter (\<lambda>u. u_username u \<in> set usernames) (users s))))\<rparr>, i))"

definition db_dm_users_exists :: "store \<Rightarrow> string list \<Rightarrow> bool" where
  "db_dm_users_exists s usernames =
    list_ex (\<lambda>d. set (map snd (filter (\<lambda>(i, n). i = d_id d) (userdm s)))
                 = set (map u_username (filter (\<lambda>u. u_username u \<in> set usernames) (users s))))
      (dms s)"


section \<open>database.py: messages and reactions\<close>

text \<open>
  The clock of \<^verbatim>\<open>utils.py\<close> at a call: \<^verbatim>\<open>now()\<close> and \<^verbatim>\<open>now_delta(seconds)\<close>, as
  ISO strings. The database compares them as text.
\<close>

record clock =
  utils_now :: string
  utils_now_delta :: "int \<Rightarrow> string"

text \<open>
  \<^verbatim>\<open>create_message\<close>: the sender is fetched first; the insert violates the foreign key when
  the DM does not exist.
\<close>

definition db_create_message ::
  "clock \<Rightarrow> store \<Rightarrow> int \<Rightarrow> string \<Rightarrow> string \<Rightarrow> string \<Rightarrow> int \<Rightarrow> exn + store \<times> message_dict" where
  "db_create_message clk s dm_id username msg sig d_time =
    (case db_get_user s username of
       Inl e \<Rightarrow> Inl e
     | Inr sender \<Rightarrow>
        if \<not> db_dm_exists s dm_id then Inl IntegrityError
        else
          let m = \<lparr>m_id = next_id (map m_id (messages s)), m_dm = dm_id, m_sender = username,
                   m_message = msg, m_signature = sig, m_timestamp = utils_now clk,
                   m_delete_timestamp =
                     (if d_time \<le> 0 then None else Some (utils_now_delta clk d_time)),
                   m_pinned = False\<rparr>
          in Inr (s\<lparr>messages := messages s @ [m]\<rparr>, model_to_dict m []))"

definition db_message_exists :: "store \<Rightarrow> int \<Rightarrow> bool" where
  "db_message_exists s message_id = (length (filter (\<lambda>m. m_id m = message_id) (messages s)) \<noteq> 0)"

definition db_message_in_user_dm :: "store \<Rightarrow> int \<Rightarrow> string \<Rightarrow> bool" where
  "db_message_in_user_dm s message_id username =
    (length (concat (map (\<lambda>m. concat (map (\<lambda>d.
        filter (\<lambda>(i, n). i = d_id d \<and> n = username) (userdm s))
        (filter (\<lambda>d. d_id d = m_dm m) (dms s))))
      (filter (\<lambda>m. m_id m = message_id) (messages s)))) \<noteq> 0)"

text \<open>\<^verbatim>\<open>get_message\<close>: one row per reaction of the message, read as in \<^verbatim>\<open>get_dm\<close>.\<close>

definition db_get_message :: "store \<Rightarrow> int \<Rightarrow> exn + message_dict" where
  "db_get_message s message_id =
    (case concat (map (\<lambda>m.
            map (\<lambda>r. (m, r)) (left_outer (filter (\<lambda>r. r_message r = m_id m) (reactions s))))
          (filter (\<lambda>m. m_id m = message_id) (messages s))) of
       [] \<Rightarrow> Inl IndexError
     | (m, None) # query \<Rightarrow> Inr (model_to_dict m [])
     | (m, Some r) # query \<Rightarrow>
         if list_all (\<lambda>row. snd row \<noteq> None) query
         then Inr (model_to_dict m (reaction_to_dict r # concat (map (\<lambda>row. case snd row of
                     None \<Rightarrow> [] | Some r' \<Rightarrow> [reaction_to_dict r']) query)))
         else Inl AttributeError)"

text \<open>
  SQL's \<^verbatim>\<open>LIMIT\<close>: a negative count is no limit. \<^verbatim>\<open>ORDER BY timestamp DESC\<close>: the rows
  by falling timestamp, rows of one timestamp in their table order.
\<close>

definition limit :: "int \<Rightarrow> 'a list \<Rightarrow> 'a list" where
  "limit count rows = (if count < 0 then rows else take (nat count) rows)"

definition order_by_timestamp_desc :: "message list \<Rightarrow> message list" where
  "order_by_timestamp_desc rows = rev (sort_key m_timestamp (rev rows))"

text \<open>
  \<^verbatim>\<open>get_messages\<close>: the page of messages, then the reactions of the messages of the DM
  between the page's last timestamp and the cursor, grouped by message id.
\<close>

definition db_get_messages :: "store \<Rightarrow> int \<Rightarrow> string \<Rightarrow> int \<Rightarrow> message_dict list" where
  "db_get_messages s dm_id cursor count =
    (let m_query = limit count (order_by_timestamp_desc
           (filter (\<lambda>m. m_dm m = dm_id \<and> m_timestamp m < cursor) (messages s)))
     in if length m_query = 0 then []
        else
          let start = m_timestamp (last m_query);
              r_query = filter (\<lambda>r. list_ex (\<lambda>m. m_id m = r_message r \<and> m_dm m = dm_id
                            \<and> m_timestamp m \<ge> start \<and> m_timestamp m < cursor) (messages s))
                          (reactions s);
              reaction_map = (\<lambda>i. map reaction_to_dict (filter (\<lambda>r. r_message r = i) r_query))
          in map (\<lambda>m. model_to_dict m (reaction_map (m_id m))) m_query)"

definition db_get_pinned_messages :: "store \<Rightarrow> int \<Rightarrow> message_dict list" where
  "db_get_pinned_messages s dm_id =
    (let m_query = order_by_timestamp_desc
           (filter (\<lambda>m. m_dm m = dm_id \<and> m_pinned m = True) (messages s))
     in if length m_query = 0 then []
        else
          let r_query = filter (\<lambda>r. list_ex (\<lambda>m. m_id m = r_message r \<and> m_dm m = dm_id
                            \<and> m_pinned m = True) (messages s)) (reactions s);
              reaction_map = (\<lambda>i. map reaction_to_dict (filter (\<lambda>r. r_message r = i) r_query))
          in map (\<lambda>m. model_to_dict m (reaction_map (m_id m))) m_query)"

text \<open>
  \<^verbatim>\<open>set_message_props\<close> with the keys \<^verbatim>\<open>get_keys\<close> kept of the payload: each of
  \<^verbatim>\<open>message\<close>, \<^verbatim>\<open>signature\<close> and \<^verbatim>\<open>pinned\<close> is written when present.
\<close>

record message_props =
  mp_message :: "string option"
  mp_signature :: "string option"
  mp_pinned :: "bool option"

definition update_message_from_dict :: "message_props \<Rightarrow> message \<Rightarrow> message" where
  "update_message_from_dict props m =
    m\<lparr>m_message := (case mp_message props of None \<Rightarrow> m_message m | Some v \<Rightarrow> v),
      m_signature := (case mp_signature props of None \<Rightarrow> m_signature m | Some v \<Rightarrow> v),
      m_pinned := (case mp_pinned props of None \<Rightarrow> m_pinned m | Some v \<Rightarrow> v)\<rparr>"

definition db_set_message_props :: "store \<Rightarrow> int \<Rightarrow> message_props \<Rightarrow> exn + store" where
  "db_set_message_props s message_id props =
    (if \<not> db_message_exists s message_id then Inl DoesNotExist
     else Inr (s\<lparr>messages := map (\<lambda>m. if m_id m = message_id
                                       then update_message_from_dict props m else m) (messages s)\<rparr>))"

definition db_delete_message :: "store \<Rightarrow> int \<Rightarrow> store" where
  "db_delete_message s message_id =
    s\<lparr>reactions := filter (\<lambda>r. r_message r \<noteq> message_id) (reactions s),
      messages := filter (\<lambda>m. m_id m \<noteq> message_id) (messages s)\<rparr>"

definition db_create_reaction :: "store \<Rightarrow> int \<Rightarrow> string \<Rightarrow> string \<Rightarrow> string \<Rightarrow> exn + store \<times> int" where
  "db_create_reaction s message_id username reaction sig =
    (case db_get_user s username of
       Inl e \<Rightarrow> Inl e
     | Inr sender \<Rightarrow>
        if \<not> db_message_exists s message_id then Inl IntegrityError
        else
          let i = next_id (map r_id (reactions s)) in
          Inr (s\<lparr>reactions := reactions s @ [\<lparr>r_id = i, r_message = message_id,
                  r_sender = username, r_reaction = reaction, r_signature = sig\<rparr>]\<rparr>, i))"

definition db_reaction_exists :: "store \<Rightarrow> int \<Rightarrow> bool" where
  "db_reaction_exists s reaction_id = (length (filter (\<lambda>r. r_id r = reaction_id) (reactions s)) \<noteq> 0)"

definition db_get_reaction :: "store \<Rightarrow> int \<Rightarrow> exn + reaction_dict" where
  "db_get_reaction s reaction_id =
    (case filter (\<lambda>r. r_id r = reaction_id) (reactions s) of
       [] \<Rightarrow> Inl DoesNotExist | r # _ \<Rightarrow> Inr (reaction_to_dict r))"

definition db_delete_reaction :: "store \<Rightarrow> int \<Rightarrow> exn + store \<times> int" where
  "db_delete_reaction s reaction_id =
    (case filter (\<lambda>r. r_id r = reaction_id) (reactions s) of
       [] \<Rightarrow> Inl DoesNotExist
     | r # _ \<Rightarrow> Inr (s\<lparr>reactions := filter (\<lambda>r'. r_id r' \<noteq> r_id r) (reactions s)\<rparr>, r_message r))"

text \<open>\<^verbatim>\<open>append_x3dh\<close>: the bundle joins the end of the user's inbox.\<close>

definition db_append_x3dh :: "store \<Rightarrow> string \<Rightarrow> x3dh \<Rightarrow> exn + store" where
  "db_append_x3dh s username payload =
    (case db_get_user s username of
       Inl e \<Rightarrow> Inl e
     | Inr u \<Rightarrow> Inr (s\<lparr>users := map (\<lambda>v. if u_username v = username
           then v\<lparr>u_x3dh_requests := u_x3dh_requests u @ [payload]\<rparr> else v) (users s)\<rparr>))"

section \<open>Ed25519.py\<close>

unbundle bit_operations_syntax

text \<open>
  The module's constants \<^verbatim>\<open>b\<close>, \<^verbatim>\<open>q\<close>, \<^verbatim>\<open>d\<close>, \<^verbatim>\<open>I\<close> and its function
  \<^verbatim>\<open>inv\<close> carry the prefix \<open>ed_\<close> here. \<open>pow\<close> is Python's three-argument
  \<^verbatim>\<open>pow(base, exp, mod)\<close> for an exponent that is not negative, computed by squaring.
\<close>

definition ed_b :: int where
  "ed_b = 256"

definition ed_q :: int where
  "ed_q = 2 ^ 255 - 19"

fun pow :: "int \<Rightarrow> nat \<Rightarrow> int \<Rightarrow> int" where
  "pow base e m =
    (if e = 0 then 1 mod m
     else let h = pow base (e div 2) m; s = (h * h) mod m
          in if e mod 2 = 0 then s else (s * base) mod m)"

declare pow.simps [simp del]

definition ed_inv :: "int \<Rightarrow> int" where
  "ed_inv x = pow x (nat (ed_q - 2)) ed_q"

definition ed_d :: int where
  "ed_d = - 121665 * ed_inv 121666"

definition ed_I :: int where
  "ed_I = pow 2 (nat ((ed_q - 1) div 4)) ed_q"

definition xrecover :: "int \<Rightarrow> int" where
  "xrecover y =
    (let xx = (y * y - 1) * ed_inv (ed_d * y * y + 1);
         x = pow xx (nat ((ed_q + 3) div 8)) ed_q;
         x = (if (x * x - xx) mod ed_q \<noteq> 0 then (x * ed_I) mod ed_q else x);
         x = (if x mod 2 \<noteq> 0 then ed_q - x else x)
     in x)"

definition compress :: "int \<Rightarrow> int \<Rightarrow> int" where
  "compress x y = (push_bit 255 (x AND 1)) OR y"

text \<open>
  Bytes are numbers below 256. \<^verbatim>\<open>int.to_bytes(length, "little")\<close> raises when the number
  is negative or does not fit; \<^verbatim>\<open>bytes.hex()\<close> writes two lowercase digits per byte;
  \<^verbatim>\<open>bytes.fromhex\<close> reads two digits of either case per byte, skips ASCII whitespace
  between bytes and raises on anything else.
\<close>

fun to_bytes_little :: "nat \<Rightarrow> int \<Rightarrow> nat list" where
  "to_bytes_little 0 v = []"
| "to_bytes_little (Suc n) v = nat (v mod 256) # to_bytes_little n (v div 256)"

definition to_bytes :: "int \<Rightarrow> nat \<Rightarrow> exn + nat list" where
  "to_bytes v len =
    (if v < 0 \<or> v \<ge> 256 ^ len then Inl OverflowError else Inr (to_bytes_little len v))"

definition from_bytes :: "nat list \<Rightarrow> int" where
  "from_bytes bs = foldr (\<lambda>byte acc. int byte + 256 * acc) bs 0"

definition hex_digit :: "nat \<Rightarrow> char" where
  "hex_digit n = ''0123456789abcdef'' ! n"

definition hex :: "nat list \<Rightarrow> string" where
  "hex bs = concat (map (\<lambda>byte. [hex_digit (byte div 16), hex_digit (byte mod 16)]) bs)"

definition hex_value :: "char \<Rightarrow> nat option" where
  "hex_value c =
    (let n = of_char c :: nat in
     if 48 \<le> n \<and> n \<le> 57 then Some (n - 48)
     else if 97 \<le> n \<and> n \<le> 102 then Some (n - 87)
     else if 65 \<le> n \<and> n \<le> 70 then Some (n - 55)
     else None)"

definition is_space :: "char \<Rightarrow> bool" where
  "is_space c = (of_char c \<in> {9, 10, 11, 12, 13, 32 :: nat})"

fun fromhex :: "string \<Rightarrow> exn + nat list" where
  "fromhex [] = Inr []"
| "fromhex [c] = (if is_space c then Inr [] else Inl ValueError)"
| "fromhex (c # c2 # cs) =
    (if is_space c then fromhex (c2 # cs)
     else case (hex_value c, hex_value c2) of
        (Some hi, Some lo) \<Rightarrow>
          (case fromhex cs of Inl e \<Rightarrow> Inl e | Inr bs \<Rightarrow> Inr ((16 * hi + lo) # bs))
      | _ \<Rightarrow> Inl ValueError)"

text \<open>
  Modelled from the spec: the library's point constructor \<^verbatim>\<open>ECC.EccPoint(x, y, "Ed25519")\<close>,
  which is not part of the repository. It raises when a coordinate does not fit 32 bytes
  or the point is not on the curve \<open>- x\<^sup>2 + y\<^sup>2 = 1 + d x\<^sup>2 y\<^sup>2\<close> modulo \<open>q\<close>; the point's
  \<^verbatim>\<open>x\<close> and \<^verbatim>\<open>y\<close> are its coordinates as field elements.
\<close>

definition on_curve :: "int \<Rightarrow> int \<Rightarrow> bool" where
  "on_curve x y = ((- x * x + y * y - 1 - ed_d * x * x * y * y) mod ed_q = 0)"

definition EccPoint :: "int \<Rightarrow> int \<Rightarrow> exn + int \<times> int" where
  "EccPoint x y =
    (if 0 \<le> x \<and> x < 2 ^ 256 \<and> 0 \<le> y \<and> y < 2 ^ 256 \<and> on_curve x y
     then Inr (x mod ed_q, y mod ed_q) else Inl ValueError)"

definition compress_key :: "int \<times> int \<Rightarrow> exn + string" where
  "compress_key point =
    (case to_bytes (compress (fst point) (snd point)) 32 of
       Inl e \<Rightarrow> Inl e | Inr bs \<Rightarrow> Inr (hex bs))"

definition decompress_key :: "string \<Rightarrow> exn + int \<times> int" where
  "decompress_key key_hex =
    (case fromhex key_hex of
       Inl e \<Rightarrow> Inl e
     | Inr key_byte \<Rightarrow>
        let key = from_bytes key_byte;
            x_odd = drop_bit 255 key;
            y = key AND NOT (push_bit 255 1);
            x = xrecover y;
            x = (if x AND 1 \<noteq> x_odd then ed_q - x else x)
        in EccPoint x y)"

text \<open>
  \<^verbatim>\<open>verify\<close>. \<open>eddsa\<close> is the library's RFC 8032 check of a signature (as bytes) on a
  message (as bytes) under a point; the source lets its exception pass.
\<close>

definition verify ::
  "(int \<times> int \<Rightarrow> nat list \<Rightarrow> nat list \<Rightarrow> bool) \<Rightarrow> string \<Rightarrow> string \<Rightarrow> string \<Rightarrow> exn + bool" where
  "verify eddsa public msg signature =
    (case decompress_key public of
       Inl e \<Rightarrow> Inl e
     | Inr point \<Rightarrow>
        (case fromhex msg of
           Inl e \<Rightarrow> Inl e
         | Inr message_bytes \<Rightarrow>
            (case fromhex signature of
               Inl e \<Rightarrow> Inl e
             | Inr signature_bytes \<Rightarrow>
                 if eddsa point message_bytes signature_bytes then Inr True else Inl ValueError)))"


section \<open>notifications.py: the coroutines that notify\<close>

definition notify_dm :: "int \<Rightarrow> step list" where
  "notify_dm dm_id = [Emit ''dm_notification'' (Some (dm_room dm_id)) None]"

definition notify_typing :: "string \<Rightarrow> int \<Rightarrow> step list" where
  "notify_typing sid dm_id = [Emit ''typing_notification'' (Some (dm_room dm_id)) (Some sid)]"

definition notify_message :: "int \<Rightarrow> step list" where
  "notify_message dm_id = [Emit ''message_notification'' (Some (dm_room dm_id)) None]"

definition notify_message_change :: "int \<Rightarrow> step list" where
  "notify_message_change dm_id = [Emit ''message_change_notification'' (Some (dm_room dm_id)) None]"

definition notify_message_delete :: "int \<Rightarrow> step list" where
  "notify_message_delete dm_id = [Emit ''message_delete_notification'' (Some (dm_room dm_id)) None]"

definition notify_sched_message :: "string \<Rightarrow> step list" where
  "notify_sched_message username =
     [Emit ''scheduled_message_sent_notification'' (Some (user_room username)) None]"

definition notify_sched_soon :: "string \<Rightarrow> step list" where
  "notify_sched_soon username =
     [Emit ''scheduled_soon_notification'' (Some (user_room username)) None]"

definition notify_friend_request :: "string \<Rightarrow> step list" where
  "notify_friend_request username =
     [Emit ''friend_request_notification'' (Some (user_room username)) None]"

definition notify_friend_accept_request :: "string \<Rightarrow> step list" where
  "notify_friend_accept_request sender =
     [Emit ''friend_request_accept_notification'' (Some (user_room sender)) None]"

definition notify_friend_unfriend :: "string \<Rightarrow> string \<Rightarrow> step list" where
  "notify_friend_unfriend u1 u2 =
     [Emit ''unfriend_notification'' (Some (user_room u2)) None,
      Emit ''unfriend_notification'' (Some (user_room u1)) None]"

text \<open>\<^verbatim>\<open>join_new_dm\<close> reads the DM and enters rooms: only the read can raise.\<close>

definition join_new_dm :: "state \<Rightarrow> int \<Rightarrow> exn + unit" where
  "join_new_dm st dm_id = (case db_get_dm (db st) dm_id of Inl e \<Rightarrow> Inl e | Inr dm \<Rightarrow> Inr ())"

section \<open>events.py: the handlers\<close>

text \<open>
  A handler's body takes the caller's session, the values of the payload's keys and the
  server state, and gives the new state and its outcome. What a handler wrote before it
  raises stays written: every function of \<^verbatim>\<open>database.py\<close> commits on its own.
\<close>

definition session_username :: "session \<Rightarrow> exn + string" where
  "session_username s = (case s_username s of None \<Rightarrow> Inl KeyError | Some n \<Rightarrow> Inr n)"

definition exclude_keys :: "user \<Rightarrow> profile" where
  "exclude_keys u = \<lparr>p_username = u_username u, p_public_key = u_public_key u, p_spk = u_spk u,
     p_sig = u_sig u, p_status = u_status u, p_biography = u_biography u,
     p_profile_picture = u_profile_picture u\<rparr>"

definition get_user_body :: "session \<Rightarrow> string \<Rightarrow> state \<Rightarrow> state \<times> outcome" where
  "get_user_body s username st =
    (if \<not> db_user_exists (db st) username then (st, Inr (False, RStr ''User does not exist.''))
     else case db_get_user (db st) username of
        Inl e \<Rightarrow> (st, Inl e)
      | Inr u \<Rightarrow>
          (st, Inr (True, RProfile
             (if \<not> is_user_online st username then (exclude_keys u)\<lparr>p_status := ''offline''\<rparr>
              else exclude_keys u))))"

definition leave_dm_body :: "session \<Rightarrow> int \<Rightarrow> state \<Rightarrow> state \<times> outcome" where
  "leave_dm_body s dm_id st =
    (case session_username s of
       Inl e \<Rightarrow> (st, Inl e)
     | Inr username \<Rightarrow>
        if \<not> db_dm_exists (db st) dm_id \<or> \<not> db_user_in_dm (db st) username dm_id
        then (st, Inr (False, RStr ''You do not have access to that DM.''))
        else (case db_leave_dm (db st) dm_id username of
           Inl e \<Rightarrow> (st, Inl e)
         | Inr s1 \<Rightarrow>
            (case db_get_dm s1 dm_id of
               Inl e \<Rightarrow> (st\<lparr>db := s1\<rparr>, Inl e)
             | Inr dm \<Rightarrow>
                 (start_background_task (notify_dm (d_id dm)) (st\<lparr>db := s1\<rparr>),
                  Inr (True, RBool True)))))"

definition ping_typing_body :: "string \<Rightarrow> session \<Rightarrow> int \<Rightarrow> state \<Rightarrow> state \<times> outcome" where
  "ping_typing_body sid s dm_id st =
    (case session_username s of
       Inl e \<Rightarrow> (st, Inl e)
     | Inr username \<Rightarrow>
        if \<not> db_dm_exists (db st) dm_id \<or> \<not> db_user_in_dm (db st) username dm_id
        then (st, Inr (False, RStr ''You do not have access to that DM.''))
        else (case db_get_dm (db st) dm_id of
           Inl e \<Rightarrow> (st, Inl e)
         | Inr dm \<Rightarrow>
            if length (dd_users dm) = 2
               \<and> dd_users dm ! 1 \<notin> set (db_get_of_status (db st) (dd_users dm ! 0) Friend)
            then (st, Inr (False, RStr ''You need to be friends to send messages here.''))
            else (start_background_task (notify_typing sid dm_id) st, Inr (True, RBool True))))"

text \<open>
  The coroutine \<^verbatim>\<open>schedule_handler(sched_id)\<close> of \<^verbatim>\<open>send_message\<close>, and its
  \<^verbatim>\<open>delete_handler\<close> for the message \<open>m\<close> inserted at once.
\<close>

definition schedule_handler ::
  "string \<Rightarrow> int \<Rightarrow> string \<Rightarrow> string \<Rightarrow> int \<Rightarrow> int \<Rightarrow> int \<Rightarrow> step list" where
  "schedule_handler username dm_id msg sig schedule delete sched_id =
    (let pre = max (schedule - 60) 0;
         post = schedule - pre
     in (if pre > 0 then Sleep pre # notify_sched_soon username else [])
        @ [Sleep post,
           Del_scheduled dm_id username sched_id,
           Create_message dm_id username msg sig delete]
        @ notify_sched_message username
        @ notify_message dm_id
        @ (if delete > 0
           then [Sleep delete, Delete_created_message] @ notify_message_delete dm_id
           else []))"

definition delete_handler :: "int \<Rightarrow> int \<Rightarrow> int \<Rightarrow> step list" where
  "delete_handler dm_id delete message_id =
     [Sleep delete, Delete_message message_id] @ notify_message_delete dm_id"

definition send_message_body ::
  "(int \<times> int \<Rightarrow> nat list \<Rightarrow> nat list \<Rightarrow> bool) \<Rightarrow> clock \<Rightarrow> session \<Rightarrow>
     int \<times> string \<times> string \<times> int \<times> int \<Rightarrow> state \<Rightarrow> state \<times> outcome" where
  "send_message_body eddsa clk s data st =
    (case data of (dm_id, msg, sig, schedule, delete) \<Rightarrow>
     (case session_username s of
       Inl e \<Rightarrow> (st, Inl e)
     | Inr username \<Rightarrow>
        if \<not> db_dm_exists (db st) dm_id \<or> \<not> db_user_in_dm (db st) username dm_id
        then (st, Inr (False, RStr ''You do not have access to that DM.''))
        else (case db_get_dm (db st) dm_id of
           Inl e \<Rightarrow> (st, Inl e)
         | Inr dm \<Rightarrow>
            if length (dd_users dm) = 2
               \<and> dd_users dm ! 1 \<notin> set (db_get_of_status (db st) (dd_users dm ! 0) Friend)
            then (st, Inr (False, RStr ''You need to be friends to send messages here.''))
            else (case db_get_user (db st) username of
               Inl e \<Rightarrow> (st, Inl e)
             | Inr u \<Rightarrow>
                (case verify eddsa (u_public_key u) msg sig of
                   Inl e \<Rightarrow> (st, Inl e)
                 | Inr ok \<Rightarrow>
                    if schedule > 0 then
                      (let sched_id = max_list 0 (map fst (scheduled_messages st dm_id username)) + 1;
                           handle = schedule_handler username dm_id msg sig schedule delete sched_id;
                           st1 = start_background_task handle st;
                           entry = \<lparr>sc_message = msg, sc_signature = sig,
                                    sc_timestamp = utils_now_delta clk schedule, sc_handle = handle\<rparr>
                       in (st1\<lparr>scheduled_messages := (scheduled_messages st1)
                               (dm_id := (scheduled_messages st1 dm_id)
                                  (username := (scheduled_messages st1 dm_id username) @ [(sched_id, entry)]))\<rparr>,
                           Inr (True, RBool True)))
                    else
                      (case db_create_message clk (db st) dm_id username msg sig delete of
                         Inl e \<Rightarrow> (st, Inl e)
                       | Inr (s1, m) \<Rightarrow>
                          (let st1 = start_background_task (notify_message dm_id) (st\<lparr>db := s1\<rparr>)
                           in ((if delete > 0
                                then start_background_task (delete_handler dm_id delete (m_id m)) st1
                                else st1),
                               Inr (True, RBool True)))))))))"


section \<open>events.py: friends and blocks\<close>

definition send_friend_request_body :: "session \<Rightarrow> string \<Rightarrow> state \<Rightarrow> state \<times> outcome" where
  "send_friend_request_body s username st =
    (case session_username s of
       Inl e \<Rightarrow> (st, Inl e)
     | Inr sender \<Rightarrow>
        if sender = username then (st, Inr (False, RStr ''You cannot friend yourself.''))
        else if \<not> db_user_exists (db st) username \<or> db_is_relation (db st) username sender Block
        then (st, Inr (False, RStr ''Could not friend that person.''))
        else if username \<in> set (db_get_of_status (db st) sender Friend)
        then (st, Inr (False, RStr ''You are already friends.''))
        else if db_is_relation (db st) sender username Request
        then (st, Inr (False, RStr ''You have already sent a request.''))
        else if db_is_relation (db st) username sender Request
        then (st, Inr (False, RStr ''That user has already sent a request to you.''))
        else
         (case (if db_is_relation (db st) sender username Block
                then db_delete_relation (db st) sender username else Inr (db st)) of
            Inl e \<Rightarrow> (st, Inl e)
          | Inr s1 \<Rightarrow>
             (case db_create_relation s1 sender username Request of
                Inl e \<Rightarrow> (st\<lparr>db := s1\<rparr>, Inl e)
              | Inr s2 \<Rightarrow>
                 (start_background_task (notify_friend_request username) (st\<lparr>db := s2\<rparr>),
                  Inr (True, RBool True)))))"

definition ack_friend_request_body :: "session \<Rightarrow> string \<times> bool \<Rightarrow> state \<Rightarrow> state \<times> outcome" where
  "ack_friend_request_body s data st =
    (case data of (sender, accept) \<Rightarrow>
     (case session_username s of
       Inl e \<Rightarrow> (st, Inl e)
     | Inr username \<Rightarrow>
        if \<not> db_user_exists (db st) sender \<or> \<not> db_is_relation (db st) sender username Request
        then (st, Inr (False, RStr ''That user did not send you a request.''))
        else if username \<in> set (db_get_of_status (db st) sender Friend)
        then (st, Inr (False, RStr ''You are already friends.''))
        else
         (case (if accept
                then (case db_set_relation_props (db st) sender username Friend of
                        Inl e \<Rightarrow> (db st, Inl e)
                      | Inr s1 \<Rightarrow>
                         if db_is_relation s1 username sender Block
                         then (case db_delete_relation s1 username sender of
                                 Inl e \<Rightarrow> (s1, Inl e) | Inr s2 \<Rightarrow> (s2, Inr ()))
                         else (s1, Inr ()))
                else (case db_delete_relation (db st) sender username of
                        Inl e \<Rightarrow> (db st, Inl e) | Inr s1 \<Rightarrow> (s1, Inr ()))) of
            (s1, Inl e) \<Rightarrow> (st\<lparr>db := s1\<rparr>, Inl e)
          | (s1, Inr u) \<Rightarrow>
             (start_background_task (notify_friend_accept_request sender) (st\<lparr>db := s1\<rparr>),
              Inr (True, RBool True)))))"

definition unfriend_body :: "session \<Rightarrow> string \<Rightarrow> state \<Rightarrow> state \<times> outcome" where
  "unfriend_body s other st =
    (case session_username s of
       Inl e \<Rightarrow> (st, Inl e)
     | Inr username \<Rightarrow>
        if \<not> db_user_exists (db st) other \<or> other \<notin> set (db_get_of_status (db st) username Friend)
        then (st, Inr (False, RStr ''You are not friends with that user.''))
        else (case utils_unfriend (db st) username other of
           Inl e \<Rightarrow> (st, Inl e)
         | Inr s1 \<Rightarrow>
            (start_background_task (notify_friend_unfriend username other) (st\<lparr>db := s1\<rparr>),
             Inr (True, RBool True))))"

definition block_user_body :: "session \<Rightarrow> string \<Rightarrow> state \<Rightarrow> state \<times> outcome" where
  "block_user_body s username st =
    (case session_username s of
       Inl e \<Rightarrow> (st, Inl e)
     | Inr sender \<Rightarrow>
        if \<not> db_user_exists (db st) sender \<or> db_is_relation (db st) sender username Block
        then (st, Inr (False, RStr ''You cannot block that user.''))
        else
         (case (if username \<in> set (db_get_of_status (db st) sender Friend)
                then utils_unfriend (db st) sender username else Inr (db st)) of
            Inl e \<Rightarrow> (st, Inl e)
          | Inr s1 \<Rightarrow>
             (case (if db_is_relation s1 sender username Request
                    then db_delete_relation s1 sender username else Inr s1) of
                Inl e \<Rightarrow> (st\<lparr>db := s1\<rparr>, Inl e)
              | Inr s2 \<Rightarrow>
                 (case db_create_relation s2 sender username Block of
                    Inl e \<Rightarrow> (st\<lparr>db := s2\<rparr>, Inl e)
                  | Inr s3 \<Rightarrow> (st\<lparr>db := s3\<rparr>, Inr (True, RBool True))))))"

definition unblock_user_body :: "session \<Rightarrow> string \<Rightarrow> state \<Rightarrow> state \<times> outcome" where
  "unblock_user_body s username st =
    (case session_username s of
       Inl e \<Rightarrow> (st, Inl e)
     | Inr sender \<Rightarrow>
        if \<not> db_user_exists (db st) sender \<or> \<not> db_is_relation (db st) sender username Block
        then (st, Inr (False, RStr ''You cannot unblock that user.''))
        else (case db_delete_relation (db st) sender username of
           Inl e \<Rightarrow> (st, Inl e)
         | Inr s1 \<Rightarrow> (st\<lparr>db := s1\<rparr>, Inr (True, RBool True))))"

section \<open>events.py: users, DMs, messages and reactions\<close>

text \<open>
  \<^verbatim>\<open>register\<close>. \<open>own_storage\<close> is \<open>None\<close> when the payload's value is not a string.
\<close>

definition register_body ::
  "(int \<times> int \<Rightarrow> nat list \<Rightarrow> nat list \<Rightarrow> bool) \<Rightarrow> session \<Rightarrow>
     string \<times> string \<times> string \<times> string \<times> string option \<Rightarrow> state \<Rightarrow> state \<times> outcome" where
  "register_body eddsa s data st =
    (case data of (username, pub, spk, sig, own_storage) \<Rightarrow>
      if logged_in s then (st, Inr (False, RStr ''Already logged in.''))
      else if db_user_exists (db st) username then (st, Inr (False, RStr ''Username already exists.''))
      else (case decompress_key pub of
         Inl e \<Rightarrow> (st, Inl e)
       | Inr p \<Rightarrow>
          (case verify eddsa pub spk sig of
             Inl e \<Rightarrow> (st, Inl e)
           | Inr ok \<Rightarrow>
              (case decompress_key spk of
                 Inl e \<Rightarrow> (st, Inl e)
               | Inr p2 \<Rightarrow>
                  (case own_storage of
                     None \<Rightarrow> (st, Inr (False, RStr ''Invalid data format.''))
                   | Some storage \<Rightarrow>
                      (case db_create_user (db st) username pub spk sig storage of
                         Inl e \<Rightarrow> (st, Inl e)
                       | Inr s1 \<Rightarrow> (st\<lparr>db := s1\<rparr>, Inr (True, RBool True))))))))"

text \<open>
  \<^verbatim>\<open>set_user\<close>. The payload is the dictionary \<^verbatim>\<open>get_keys\<close> keeps, its values strings.
\<close>

definition set_user_body ::
  "(int \<times> int \<Rightarrow> nat list \<Rightarrow> nat list \<Rightarrow> bool) \<Rightarrow> string \<Rightarrow> session \<Rightarrow> user_props \<Rightarrow>
     state \<Rightarrow> state \<times> outcome" where
  "set_user_body eddsa sid s parsed st =
    (case session_username s of
       Inl e \<Rightarrow> (st, Inl e)
     | Inr username \<Rightarrow>
        if up_spk parsed = None \<and> up_sig parsed = None \<and> up_status parsed = None
           \<and> up_biography parsed = None \<and> up_profile_picture parsed = None
           \<and> up_own_storage parsed = None
        then (st, Inr (False, RStr ''Invalid data format.''))
        else
         (case (case up_spk parsed of
                  None \<Rightarrow> Inr True
                | Some spk \<Rightarrow>
                   (case db_get_user (db st) username of
                      Inl e \<Rightarrow> Inl e
                    | Inr u \<Rightarrow>
                       (case up_sig parsed of
                          None \<Rightarrow> Inl KeyError
                        | Some sig \<Rightarrow>
                           (case verify eddsa (u_public_key u) spk sig of
                              Inl e \<Rightarrow> Inl e
                            | Inr ok \<Rightarrow>
                               (case decompress_key spk of Inl e \<Rightarrow> Inl e | Inr p \<Rightarrow> Inr True))))) of
            Inl e \<Rightarrow> (st, Inl e)
          | Inr ok \<Rightarrow>
             if (case up_biography parsed of None \<Rightarrow> False | Some bio \<Rightarrow> length bio > 500)
             then (st, Inr (False, RStr ''Invalid data format.''))
             else (case db_set_user_props (db st) username parsed of
                Inl e \<Rightarrow> (st, Inl e)
              | Inr s1 \<Rightarrow>
                 (case db_get_user s1 username of
                    Inl e \<Rightarrow> (st\<lparr>db := s1\<rparr>, Inl e)
                  | Inr u \<Rightarrow>
                     (start_background_task (notify_profile sid) (st\<lparr>db := s1\<rparr>),
                      Inr (True, RBool True))))))"

text \<open>
  The loops of \<^verbatim>\<open>create_dm\<close>. The first returns or raises at the first pair that fails
  (\<open>None\<close>: every pair passed); the second raises at the first key that is not a point;
  the third sends or stores one X3DH bundle per pair, counting positions from 1.
\<close>

fun check_pairs :: "store \<Rightarrow> (string \<times> string \<times> string) list \<Rightarrow> outcome option" where
  "check_pairs s [] = None"
| "check_pairs s ((username, spk, ek) # pairs) =
    (if \<not> db_user_exists s username then Some (Inr (False, RStr ''User does not exist.''))
     else case db_get_user s username of
        Inl e \<Rightarrow> Some (Inl e)
      | Inr u \<Rightarrow>
         if Some spk \<noteq> u_spk u then Some (Inr (False, RStr ''SPK does not match.''))
         else (case decompress_key ek of
            Inl e \<Rightarrow> Some (Inl e)
          | Inr p \<Rightarrow> check_pairs s pairs))"

fun check_key_tree :: "string list \<Rightarrow> exn option" where
  "check_key_tree [] = None"
| "check_key_tree (k # ks) =
    (case decompress_key k of Inl e \<Rightarrow> Some e | Inr p \<Rightarrow> check_key_tree ks)"

fun send_x3dh ::
  "string \<Rightarrow> string list \<Rightarrow> int \<Rightarrow> nat \<Rightarrow> (string \<times> string \<times> string) list \<Rightarrow> state \<Rightarrow>
     state \<times> (exn + unit)" where
  "send_x3dh sender key_tree dm_id i [] st = (st, Inr ())"
| "send_x3dh sender key_tree dm_id i ((name, spk, ek) # pairs) st =
    (case db_get_user (db st) sender of
       Inl e \<Rightarrow> (st, Inl e)
     | Inr u \<Rightarrow>
        if is_user_online st name
        then send_x3dh sender key_tree dm_id (Suc i) pairs
               (start_background_task (notify_x3dh name) st)
        else (case db_append_x3dh (db st) name
                     \<lparr>x_sender = sender, x_ik = u_public_key u, x_spk = spk, x_ek = ek,
                      x_key_tree = key_tree, x_position = i, x_id = dm_id\<rparr> of
           Inl e \<Rightarrow> (st, Inl e)
         | Inr s1 \<Rightarrow> send_x3dh sender key_tree dm_id (Suc i) pairs (st\<lparr>db := s1\<rparr>)))"

text \<open>
  \<^verbatim>\<open>create_dm\<close>. A message of the payload is its \<^verbatim>\<open>spk\<close> and \<^verbatim>\<open>ek\<close>;
  \<^verbatim>\<open>zip\<close> pairs the names with the messages up to the shorter list.
\<close>

definition create_dm_body ::
  "clock \<Rightarrow> session \<Rightarrow> string list \<times> (string \<times> string) list \<times> string list \<Rightarrow> state \<Rightarrow>
     state \<times> outcome" where
  "create_dm_body clk s data st =
    (case data of (usernames, msgs, key_tree) \<Rightarrow>
     (case session_username s of
       Inl e \<Rightarrow> (st, Inl e)
     | Inr sender \<Rightarrow>
        (let pairs = zip usernames msgs in
         case check_pairs (db st) pairs of
           Some out \<Rightarrow> (st, out)
         | None \<Rightarrow>
            if length pairs = 1 \<and> db_dm_users_exists (db st) (sender # usernames)
            then (st, Inr (False, RStr ''DM with that user already exists.''))
            else if length pairs = 1
                    \<and> sender \<notin> set (db_get_of_status (db st) (usernames ! 0) Friend)
            then (st, Inr (False, RStr ''You need to be friends to make that DM.''))
            else (case check_key_tree key_tree of
               Some e \<Rightarrow> (st, Inl e)
             | None \<Rightarrow>
                (case db_create_dm (db st) (sender # usernames) key_tree (utils_now clk) of
                   (s1, dm_id) \<Rightarrow>
                    (case send_x3dh sender key_tree dm_id 1 pairs (st\<lparr>db := s1\<rparr>) of
                       (st2, Inl e) \<Rightarrow> (st2, Inl e)
                     | (st2, Inr u) \<Rightarrow>
                        (case join_new_dm st2 dm_id of
                           Inl e \<Rightarrow> (st2, Inl e)
                         | Inr u \<Rightarrow> (st2, Inr (True, RInt dm_id)))))))))"

definition set_dm_body :: "session \<Rightarrow> int \<times> string option \<Rightarrow> state \<Rightarrow> state \<times> outcome" where
  "set_dm_body s data st =
    (case data of (dm_id, name) \<Rightarrow>
     (case session_username s of
       Inl e \<Rightarrow> (st, Inl e)
     | Inr username \<Rightarrow>
        if \<not> db_dm_exists (db st) dm_id \<or> \<not> db_user_in_dm (db st) username dm_id
        then (st, Inr (False, RStr ''You do not have access to that DM.''))
        else (case db_set_dm_props (db st) dm_id name of
           Inl e \<Rightarrow> (st, Inl e)
         | Inr s1 \<Rightarrow>
            (case db_get_dm s1 dm_id of
               Inl e \<Rightarrow> (st\<lparr>db := s1\<rparr>, Inl e)
             | Inr dm \<Rightarrow>
                (start_background_task (notify_dm (d_id dm)) (st\<lparr>db := s1\<rparr>),
                 Inr (True, RBool True))))))"

definition set_message_body ::
  "(int \<times> int \<Rightarrow> nat list \<Rightarrow> nat list \<Rightarrow> bool) \<Rightarrow> session \<Rightarrow> int \<times> message_props \<Rightarrow>
     state \<Rightarrow> state \<times> outcome" where
  "set_message_body eddsa s data st =
    (case data of (message_id, parsed) \<Rightarrow>
     (case session_username s of
       Inl e \<Rightarrow> (st, Inl e)
     | Inr username \<Rightarrow>
        if \<not> db_message_exists (db st) message_id
           \<or> \<not> db_message_in_user_dm (db st) message_id username
        then (st, Inr (False, RStr ''You do not have access to that message.''))
        else
         (case (case mp_message parsed of
                  None \<Rightarrow> Inr (True, RBool True)
                | Some msg \<Rightarrow>
                   (case db_get_message (db st) message_id of
                      Inl e \<Rightarrow> Inl e
                    | Inr m \<Rightarrow>
                       if m_sender m \<noteq> username
                       then Inr (False, RStr ''You cannot edit that message.'')
                       else (case mp_signature parsed of
                          None \<Rightarrow> Inl KeyError
                        | Some sig \<Rightarrow>
                           (case db_get_user (db st) username of
                              Inl e \<Rightarrow> Inl e
                            | Inr u \<Rightarrow>
                               (case verify eddsa (u_public_key u) msg sig of
                                  Inl e \<Rightarrow> Inl e
                                | Inr ok \<Rightarrow> Inr (True, RBool True)))))) of
            Inl e \<Rightarrow> (st, Inl e)
          | Inr (False, v) \<Rightarrow> (st, Inr (False, v))
          | Inr (True, v) \<Rightarrow>
             (case db_set_message_props (db st) message_id parsed of
                Inl e \<Rightarrow> (st, Inl e)
              | Inr s1 \<Rightarrow>
                 (case db_get_message s1 message_id of
                    Inl e \<Rightarrow> (st\<lparr>db := s1\<rparr>, Inl e)
                  | Inr m \<Rightarrow>
                     (start_background_task (notify_message_change (m_dm m)) (st\<lparr>db := s1\<rparr>),
                      Inr (True, RBool True)))))))"

definition add_reaction_body ::
  "(int \<times> int \<Rightarrow> nat list \<Rightarrow> nat list \<Rightarrow> bool) \<Rightarrow> session \<Rightarrow> int \<times> string \<times> string \<Rightarrow>
     state \<Rightarrow> state \<times> outcome" where
  "add_reaction_body eddsa s data st =
    (case data of (message_id, reaction, sig) \<Rightarrow>
     (case session_username s of
       Inl e \<Rightarrow> (st, Inl e)
     | Inr username \<Rightarrow>
        if \<not> db_message_exists (db st) message_id
           \<or> \<not> db_message_in_user_dm (db st) message_id username
        then (st, Inr (False, RStr ''You do not have access to that message.''))
        else (case db_get_user (db st) username of
           Inl e \<Rightarrow> (st, Inl e)
         | Inr u \<Rightarrow>
            (case verify eddsa (u_public_key u) reaction sig of
               Inl e \<Rightarrow> (st, Inl e)
             | Inr ok \<Rightarrow>
                (case db_create_reaction (db st) message_id username reaction sig of
                   Inl e \<Rightarrow> (st, Inl e)
                 | Inr (s1, reaction_id) \<Rightarrow>
                    (case db_get_message s1 message_id of
                       Inl e \<Rightarrow> (st\<lparr>db := s1\<rparr>, Inl e)
                     | Inr m \<Rightarrow>
                        (start_background_task (notify_message_change (m_dm m)) (st\<lparr>db := s1\<rparr>),
                         Inr (True, RInt reaction_id))))))))"

definition remove_reaction_body :: "session \<Rightarrow> int \<Rightarrow> state \<Rightarrow> state \<times> outcome" where
  "remove_reaction_body s reaction_id st =
    (case session_username s of
       Inl e \<Rightarrow> (st, Inl e)
     | Inr username \<Rightarrow>
        if \<not> db_reaction_exists (db st) reaction_id
        then (st, Inr (False, RStr ''You do not have access to that reaction.''))
        else (case db_get_reaction (db st) reaction_id of
           Inl e \<Rightarrow> (st, Inl e)
         | Inr r \<Rightarrow>
            if rd_sender r \<noteq> username
            then (st, Inr (False, RStr ''You do not have access to that reaction.''))
            else (case db_delete_reaction (db st) reaction_id of
               Inl e \<Rightarrow> (st, Inl e)
             | Inr (s1, message_id) \<Rightarrow>
                (case db_get_message s1 message_id of
                   Inl e \<Rightarrow> (st\<lparr>db := s1\<rparr>, Inl e)
                 | Inr m \<Rightarrow>
                    (start_background_task (notify_message_change (m_dm m)) (st\<lparr>db := s1\<rparr>),
                     Inr (True, RBool True))))))"

text \<open>
  \<^verbatim>\<open>cancel_scheduled_message\<close>: the task is cancelled, so it leaves the set of running
  tasks, and its entry leaves the registry.
\<close>

definition cancel_scheduled_message_body :: "session \<Rightarrow> int \<times> int \<Rightarrow> state \<Rightarrow> state \<times> outcome" where
  "cancel_scheduled_message_body s data st =
    (case data of (dm_id, schedule_id) \<Rightarrow>
     (case session_username s of
       Inl e \<Rightarrow> (st, Inl e)
     | Inr username \<Rightarrow>
        (case map_of (scheduled_messages st dm_id username) schedule_id of
           None \<Rightarrow> (st, Inr (False, RStr ''You did not schedule a message with that id.''))
         | Some entry \<Rightarrow>
            (st\<lparr>background_tasks := remove1 (sc_handle entry) (background_tasks st),
                scheduled_messages := (scheduled_messages st)
                  (dm_id := (scheduled_messages st dm_id)
                     (username := filter (\<lambda>(k, v). k \<noteq> schedule_id)
                        (scheduled_messages st dm_id username)))\<rparr>,
             Inr (True, RBool True)))))"

text \<open>
  \<^verbatim>\<open>get_message_history\<close>. \<open>strptime\<close> tells whether the cursor parses with the format
  \<^verbatim>\<open>%Y-%m-%dT%H:%M:%S.%f%z\<close>; the cursor then goes to the database as it came.
\<close>

definition get_message_history_body ::
  "(string \<Rightarrow> bool) \<Rightarrow> session \<Rightarrow> int \<times> string \<times> int \<Rightarrow> state \<Rightarrow> state \<times> outcome" where
  "get_message_history_body strptime s data st =
    (case data of (dm_id, cursor, lim) \<Rightarrow>
     (case session_username s of
       Inl e \<Rightarrow> (st, Inl e)
     | Inr username \<Rightarrow>
        if \<not> strptime cursor then (st, Inl ValueError)
        else if \<not> db_dm_exists (db st) dm_id \<or> \<not> db_user_in_dm (db st) username dm_id
        then (st, Inr (False, RStr ''You do not have access to that DM.''))
        else (st, Inr (True, RMessages (db_get_messages (db st) dm_id cursor lim)))))"


section \<open>events.py: the events as registered\<close>

text \<open>
  Each event is its handler under its decorators, in the order of the source:
  \<^verbatim>\<open>error_wrap\<close> outermost, then \<^verbatim>\<open>login_required_wrap\<close>, then \<^verbatim>\<open>check_keys\<close>.
\<close>

definition register ::
  "(int \<times> int \<Rightarrow> nat list \<Rightarrow> nat list \<Rightarrow> bool) \<Rightarrow> session \<Rightarrow>
     (string \<times> string \<times> string \<times> string \<times> string option) option \<Rightarrow> state \<Rightarrow> state \<times> response" where
  "register eddsa s data st = wrap_response (check_keys (register_body eddsa s) data st)"

definition get_user :: "session \<Rightarrow> string option \<Rightarrow> state \<Rightarrow> state \<times> response" where
  "get_user s data st =
     wrap_response (login_required_wrap (\<lambda>s. check_keys (get_user_body s)) s data st)"

definition set_user ::
  "(int \<times> int \<Rightarrow> nat list \<Rightarrow> nat list \<Rightarrow> bool) \<Rightarrow> string \<Rightarrow> session \<Rightarrow> user_props \<Rightarrow>
     state \<Rightarrow> state \<times> response" where
  "set_user eddsa sid s data st =
     wrap_response (login_required_wrap (set_user_body eddsa sid) s data st)"

definition create_dm ::
  "clock \<Rightarrow> session \<Rightarrow> (string list \<times> (string \<times> string) list \<times> string list) option \<Rightarrow>
     state \<Rightarrow> state \<times> response" where
  "create_dm clk s data st =
     wrap_response (login_required_wrap (\<lambda>s. check_keys (create_dm_body clk s)) s data st)"

definition set_dm :: "session \<Rightarrow> (int \<times> string option) option \<Rightarrow> state \<Rightarrow> state \<times> response" where
  "set_dm s data st =
     wrap_response (login_required_wrap (\<lambda>s. check_keys (set_dm_body s)) s data st)"

definition leave_dm :: "session \<Rightarrow> int option \<Rightarrow> state \<Rightarrow> state \<times> response" where
  "leave_dm s data st =
     wrap_response (login_required_wrap (\<lambda>s. check_keys (leave_dm_body s)) s data st)"

definition send_message ::
  "(int \<times> int \<Rightarrow> nat list \<Rightarrow> nat list \<Rightarrow> bool) \<Rightarrow> clock \<Rightarrow> session \<Rightarrow>
     (int \<times> string \<times> string \<times> int \<times> int) option \<Rightarrow> state \<Rightarrow> state \<times> response" where
  "send_message eddsa clk s data st =
     wrap_response (login_required_wrap (\<lambda>s. check_keys (send_message_body eddsa clk s)) s data st)"

definition get_message_history ::
  "(string \<Rightarrow> bool) \<Rightarrow> session \<Rightarrow> (int \<times> string \<times> int) option \<Rightarrow> state \<Rightarrow> state \<times> response" where
  "get_message_history strptime s data st =
     wrap_response (login_required_wrap
       (\<lambda>s. check_keys (get_message_history_body strptime s)) s data st)"

definition set_message ::
  "(int \<times> int \<Rightarrow> nat list \<Rightarrow> nat list \<Rightarrow> bool) \<Rightarrow> session \<Rightarrow> int \<times> message_props \<Rightarrow>
     state \<Rightarrow> state \<times> response" where
  "set_message eddsa s data st =
     wrap_response (login_required_wrap (set_message_body eddsa) s data st)"

definition cancel_scheduled_message ::
  "session \<Rightarrow> (int \<times> int) option \<Rightarrow> state \<Rightarrow> state \<times> response" where
  "cancel_scheduled_message s data st =
     wrap_response (login_required_wrap
       (\<lambda>s. check_keys (cancel_scheduled_message_body s)) s data st)"

definition add_reaction ::
  "(int \<times> int \<Rightarrow> nat list \<Rightarrow> nat list \<Rightarrow> bool) \<Rightarrow> session \<Rightarrow>
     (int \<times> string \<times> string) option \<Rightarrow> state \<Rightarrow> state \<times> response" where
  "add_reaction eddsa s data st =
     wrap_response (login_required_wrap (\<lambda>s. check_keys (add_reaction_body eddsa s)) s data st)"

definition remove_reaction :: "session \<Rightarrow> int option \<Rightarrow> state \<Rightarrow> state \<times> response" where
  "remove_reaction s data st =
     wrap_response (login_required_wrap (\<lambda>s. check_keys (remove_reaction_body s)) s data st)"

definition ping_typing :: "string \<Rightarrow> session \<Rightarrow> int option \<Rightarrow> state \<Rightarrow> state \<times> response" where
  "ping_typing sid s data st =
     wrap_response (login_required_wrap (\<lambda>s. check_keys (ping_typing_body sid s)) s data st)"

definition send_friend_request :: "session \<Rightarrow> string option \<Rightarrow> state \<Rightarrow> state \<times> response" where
  "send_friend_request s data st =
     wrap_response (login_required_wrap (\<lambda>s. check_keys (send_friend_request_body s)) s data st)"

definition ack_friend_request ::
  "session \<Rightarrow> (string \<times> bool) option \<Rightarrow> state \<Rightarrow> state \<times> response" where
  "ack_friend_request s data st =
     wrap_response (login_required_wrap (\<lambda>s. check_keys (ack_friend_request_body s)) s data st)"

definition unfriend :: "session \<Rightarrow> string option \<Rightarrow> state \<Rightarrow> state \<times> response" where
  "unfriend s data st =
     wrap_response (login_required_wrap (\<lambda>s. check_keys (unfriend_body s)) s data st)"

definition block_user :: "session \<Rightarrow> string option \<Rightarrow> state \<Rightarrow> state \<times> response" where
  "block_user s data st =
     wrap_response (login_required_wrap (\<lambda>s. check_keys (block_user_body s)) s data st)"

definition unblock_user :: "session \<Rightarrow> string option \<Rightarrow> state \<Rightarrow> state \<times> response" where
  "unblock_user s data st =
     wrap_response (login_required_wrap (\<lambda>s. check_keys (unblock_user_body s)) s data st)"

text \<open>
  \<^verbatim>\<open>register_events\<close>: an event is dispatched by its name. The two events of the login
  change the session; the others read it.
\<close>

datatype auth_request = Login "string option" | Login_challenge_response "string option"

definition auth_event ::
  "(string \<Rightarrow> exn + string \<times> string) \<Rightarrow> string \<Rightarrow> int \<Rightarrow> auth_request \<Rightarrow> state \<times> session \<Rightarrow>
     (state \<times> session) \<times> response" where
  "auth_event gen sid now req w =
    (case req of
       Login data \<Rightarrow> login gen now data w
     | Login_challenge_response data \<Rightarrow> login_challenge_response sid now data w)"

record env =
  env_eddsa :: "int \<times> int \<Rightarrow> nat list \<Rightarrow> nat list \<Rightarrow> bool"
  env_clock :: clock
  env_strptime :: "string \<Rightarrow> bool"
  env_sid :: string

datatype request =
    Register "(string \<times> string \<times> string \<times> string \<times> string option) option"
  | Get_user "string option"
  | Set_user user_props
  | Create_dm "(string list \<times> (string \<times> string) list \<times> string list) option"
  | Set_dm "(int \<times> string option) option"
  | Leave_dm "int option"
  | Send_message "(int \<times> string \<times> string \<times> int \<times> int) option"
  | Get_message_history "(int \<times> string \<times> int) option"
  | Set_message "int \<times> message_props"
  | Cancel_scheduled_message "(int \<times> int) option"
  | Add_reaction "(int \<times> string \<times> string) option"
  | Remove_reaction "int option"
  | Ping_typing "int option"
  | Send_friend_request "string option"
  | Ack_friend_request "(string \<times> bool) option"
  | Unfriend "string option"
  | Block_user "string option"
  | Unblock_user "string option"

definition event :: "env \<Rightarrow> session \<Rightarrow> request \<Rightarrow> state \<Rightarrow> state \<times> response" where
  "event ev s req st =
    (case req of
       Register data \<Rightarrow> register (env_eddsa ev) s data st
     | Get_user data \<Rightarrow> get_user s data st
     | Set_user data \<Rightarrow> set_user (env_eddsa ev) (env_sid ev) s data st
     | Create_dm data \<Rightarrow> create_dm (env_clock ev) s data st
     | Set_dm data \<Rightarrow> set_dm s data st
     | Leave_dm data \<Rightarrow> leave_dm s data st
     | Send_message data \<Rightarrow> send_message (env_eddsa ev) (env_clock ev) s data st
     | Get_message_history data \<Rightarrow> get_message_history (env_strptime ev) s data st
     | Set_message data \<Rightarrow> set_message (env_eddsa ev) s data st
     | Cancel_scheduled_message data \<Rightarrow> cancel_scheduled_message s data st
     | Add_reaction data \<Rightarrow> add_reaction (env_eddsa ev) s data st
     | Remove_reaction data \<Rightarrow> remove_reaction s data st
     | Ping_typing data \<Rightarrow> ping_typing (env_sid ev) s data st
     | Send_friend_request data \<Rightarrow> send_friend_request s data st
     | Ack_friend_request data \<Rightarrow> ack_friend_request s data st
     | Unfriend data \<Rightarrow> unfriend s data st
     | Block_user data \<Rightarrow> block_user s data st
     | Unblock_user data \<Rightarrow> unblock_user s data st)"


section \<open>Paging through a DM's history\<close>

text \<open>
  The client's paging of \<^verbatim>\<open>get_message_history\<close>: a first call with a cursor, then a call
  with the timestamp of the last message of the page before, until a page comes back
  empty. The pages are those of \<^verbatim>\<open>db.get_messages\<close>, which the handler returns
  unchanged. Each call reads messages strictly below its cursor, so the paging ends.
\<close>

lemma length_filter_less_strict:
  "(\<And>x. x \<in> set xs \<Longrightarrow> P x \<Longrightarrow> Q x) \<Longrightarrow> y \<in> set xs \<Longrightarrow> Q y \<Longrightarrow> \<not> P y
     \<Longrightarrow> length (filter P xs) < length (filter Q xs)"
proof (induction xs)
  case Nil
  then show ?case by simp
next
  case (Cons a xs)
  have le: "length (filter P xs) \<le> length (filter Q xs)"
  proof -
    have "filter P xs = filter P (filter Q xs)"
      using Cons.prems(1) by (auto simp: filter_filter intro!: filter_cong)
    then show ?thesis by (metis length_filter_le)
  qed
  show ?case
  proof (cases "a = y")
    case True
    with Cons.prems le show ?thesis by simp
  next
    case False
    with Cons.prems have "y \<in> set xs" by simp
    then have "length (filter P xs) < length (filter Q xs)"
      using Cons.IH Cons.prems by simp
    moreover have "P a \<Longrightarrow> Q a" using Cons.prems(1) by simp
    ultimately show ?thesis by auto
  qed
qed

lemma m_timestamp_model_to_dict [simp]: "m_timestamp (model_to_dict m rs) = m_timestamp m"
  by (simp add: model_to_dict_def message.defs)

lemma set_limit: "set (limit count rows) \<subseteq> set rows"
  by (auto simp: limit_def dest: in_set_takeD)

lemma db_get_messages_below_cursor:
  "x \<in> set (db_get_messages s dm_id cursor count) \<Longrightarrow>
     \<exists>m \<in> set (messages s). m_dm m = dm_id \<and> m_timestamp m < cursor \<and> m_timestamp x = m_timestamp m"
proof -
  assume x: "x \<in> set (db_get_messages s dm_id cursor count)"
  let ?q = "limit count (order_by_timestamp_desc
           (filter (\<lambda>m. m_dm m = dm_id \<and> m_timestamp m < cursor) (messages s)))"
  from x obtain m where m: "m \<in> set ?q" "m_timestamp x = m_timestamp m"
    by (auto simp: db_get_messages_def Let_def split: if_splits)
  have "m \<in> set (order_by_timestamp_desc
           (filter (\<lambda>m. m_dm m = dm_id \<and> m_timestamp m < cursor) (messages s)))"
    by (rule subsetD[OF set_limit m(1)])
  then have "m \<in> set (messages s)" "m_dm m = dm_id" "m_timestamp m < cursor"
    by (simp_all add: order_by_timestamp_desc_def)
  with m(2) show ?thesis by blast
qed

function get_message_pages :: "store \<Rightarrow> int \<Rightarrow> string \<Rightarrow> int \<Rightarrow> message_dict list list" where
  "get_message_pages s dm_id cursor count =
    (let page = db_get_messages s dm_id cursor count
     in if page = [] then []
        else page # get_message_pages s dm_id (m_timestamp (last page)) count)"
  by pat_completeness auto
termination
proof (relation "measure (\<lambda>(s, dm_id, cursor, count).
         length (filter (\<lambda>m. m_dm m = dm_id \<and> m_timestamp m < cursor) (messages s)))")
  show "wf (measure (\<lambda>(s, dm_id, cursor, count).
         length (filter (\<lambda>m. m_dm m = dm_id \<and> m_timestamp m < cursor) (messages s))))"
    by simp
next
  fix s dm_id cursor count and page :: "message_dict list"
  assume page: "page = db_get_messages s dm_id cursor count" and ne: "page \<noteq> []"
  then have "last page \<in> set (db_get_messages s dm_id cursor count)" by simp
  then obtain m where m: "m \<in> set (messages s)" "m_dm m = dm_id" "m_timestamp m < cursor"
      "m_timestamp (last page) = m_timestamp m"
    using db_get_messages_below_cursor by blast
  have "length (filter (\<lambda>m'. m_dm m' = dm_id \<and> m_timestamp m' < m_timestamp (last page)) (messages s))
      < length (filter (\<lambda>m'. m_dm m' = dm_id \<and> m_timestamp m' < cursor) (messages s))"
  proof (rule length_filter_less_strict[where y = m])
    fix x assume "m_dm x = dm_id \<and> m_timestamp x < m_timestamp (last page)"
    with m show "m_dm x = dm_id \<and> m_timestamp x < cursor" by auto
  next
    show "m \<in> set (messages s)" by (rule m(1))
    show "m_dm m = dm_id \<and> m_timestamp m < cursor" using m by simp
    show "\<not> (m_dm m = dm_id \<and> m_timestamp m < m_timestamp (last page))" using m by simp
  qed
  then show "((s, dm_id, m_timestamp (last page), count), (s, dm_id, cursor, count))
       \<in> measure (\<lambda>(s, dm_id, cursor, count).
         length (filter (\<lambda>m. m_dm m = dm_id \<and> m_timestamp m < cursor) (messages s)))"
    by simp
qed

declare get_message_pages.simps [simp del]


section \<open>Example data\<close>

text \<open>Small states on which the theorems below are run.\<close>

text \<open>The neutral point \<open>(0, 1)\<close> of the curve, compressed: every example user's key.\<close>

definition ex_key :: string where
  "ex_key = ''0100000000000000000000000000000000000000000000000000000000000000''"

definition ex_user :: "string \<Rightarrow> user" where
  "ex_user n = \<lparr>u_username = n, u_public_key = ex_key, u_spk = Some (''spk_'' @ n),
     u_sig = Some (''sig_'' @ n), u_status = ''online'', u_biography = [],
     u_profile_picture = [], u_own_storage = [], u_x3dh_requests = []\<rparr>"

definition ex_store :: store where
  "ex_store = \<lparr>users = [ex_user ''alice'', ex_user ''bob''], relations = [], dms = [],
     userdm = [], messages = [], reactions = []\<rparr>"

definition ex_state :: "store \<Rightarrow> state" where
  "ex_state s = \<lparr>db = s, name_map = (\<lambda>n. {||}), scheduled_messages = (\<lambda>i n. []),
     background_tasks = []\<rparr>"

definition ex_session :: "string \<Rightarrow> session" where
  "ex_session n = \<lparr>logged_in = True, s_username = Some n, challenge_response = None,
     login_fails = 0, lockout_start = 0\<rparr>"

definition ex_dm_store :: store where
  "ex_dm_store = ex_store\<lparr>dms := [\<lparr>d_id = 1, d_public_keys = [], d_name = None,
       d_created_at = ''2024-01-01T00:00:00.000000''\<rparr>],
     userdm := [(1, ''alice''), (1, ''bob'')]\<rparr>"

definition ex_clock :: clock where
  "ex_clock = \<lparr>utils_now = ''2024-01-01T00:00:05.000000'',
     utils_now_delta = (\<lambda>seconds. ''2024-01-01T00:01:00.000000'')\<rparr>"

definition ex_eddsa :: "int \<times> int \<Rightarrow> nat list \<Rightarrow> nat list \<Rightarrow> bool" where
  "ex_eddsa point message_bytes signature_bytes = True"





text \<open>A challenge generator, and a session locked out since the instant 1000 s.\<close>

definition ex_gen :: "string \<Rightarrow> exn + string \<times> string" where
  "ex_gen pub = Inr (''chal'', ''resp'')"

definition ex_locked :: session where
  "ex_locked = \<lparr>logged_in = False, s_username = None, challenge_response = None,
     login_fails = 10, lockout_start = 1000000000\<rparr>"

text \<open>A DM whose only member is alice; and the parameters of an event.\<close>

definition ex_solo_store :: store where
  "ex_solo_store = ex_store\<lparr>dms := [\<lparr>d_id = 1, d_public_keys = [], d_name = None,
       d_created_at = ''2024-01-01T00:00:00.000000''\<rparr>],
     userdm := [(1, ''alice'')]\<rparr>"

definition ex_env :: env where
  "ex_env = \<lparr>env_eddsa = ex_eddsa, env_clock = ex_clock, env_strptime = (\<lambda>cursor. True),
     env_sid = ''sid1''\<rparr>"

text \<open>Bob's stored status is \<open>busy\<close>; and a presence map with one connection of bob.\<close>

definition ex_busy_store :: store where
  "ex_busy_store = ex_store\<lparr>users := [ex_user ''alice'', (ex_user ''bob'')\<lparr>u_status := ''busy''\<rparr>]\<rparr>"

definition ex_presence :: "string \<Rightarrow> string fset" where
  "ex_presence n = (if n = ''bob'' then {|''sid2''|} else {||})"




section \<open>Theorems: login and the challenge response\<close>

lemma db_fold_start_background_task [simp]:
  "db (fold (\<lambda>n. start_background_task (c n)) ns st) = db st"
  by (induction ns arbitrary: st) (simp_all add: start_background_task_def)

lemma db_start_background_task [simp]: "db (start_background_task c st) = db st"
  by (simp add: start_background_task_def)

lemma db_user_exists_iff: "db_user_exists s u = (u \<in> u_username ` set (users s))"
  by (auto simp: db_user_exists_def filter_empty_conv)

lemma db_get_user_exists: "db_user_exists s u \<Longrightarrow> \<exists>usr. db_get_user s u = Inr usr \<and> u_username usr = u"
proof -
  assume "db_user_exists s u"
  then have ne: "filter (\<lambda>v. u_username v = u) (users s) \<noteq> []"
    by (simp add: db_user_exists_def)
  then obtain x xs where eq: "filter (\<lambda>v. u_username v = u) (users s) = x # xs"
    by (cases "filter (\<lambda>v. u_username v = u) (users s)") auto
  then have "x \<in> set (filter (\<lambda>v. u_username v = u) (users s))" by simp
  then have "u_username x = u" by simp
  with eq show ?thesis by (simp add: db_get_user_def)
qed

lemma db_get_and_clear_x3dh_exists:
  "db_user_exists s u \<Longrightarrow>
     \<exists>s' ns. db_get_and_clear_x3dh s u = Inr (s', ns) \<and> db_user_exists s' u"
proof -
  assume ex: "db_user_exists s u"
  then obtain usr where g: "db_get_user s u = Inr usr" using db_get_user_exists by blast
  have "map u_username (map (\<lambda>v. if u_username v = u then v\<lparr>u_x3dh_requests := []\<rparr> else v) (users s))
        = map u_username (users s)"
    by (simp add: comp_def if_distrib)
  then have "u_username ` set (map (\<lambda>v. if u_username v = u then v\<lparr>u_x3dh_requests := []\<rparr> else v) (users s))
        = u_username ` set (users s)"
    by (metis set_map)
  with ex g show ?thesis
    by (simp add: db_get_and_clear_x3dh_def db_user_exists_iff)
qed

lemma login_join_rooms_ok:
  "db_user_exists (db st) u \<Longrightarrow> \<exists>st1. login_join_rooms sid u st = (st1, Inr ()) \<and> db_user_exists (db st1) u"
proof -
  assume ex: "db_user_exists (db st) u"
  obtain s' ns where "db_get_and_clear_x3dh (db st) u = Inr (s', ns)" "db_user_exists s' u"
    using db_get_and_clear_x3dh_exists[OF ex] by blast
  then show ?thesis
    by (simp add: login_join_rooms_def Let_def)
qed




section \<open>Lemmas: the decorators and the joins\<close>

lemma login_required_wrap_logged_in [simp]:
  "logged_in s \<Longrightarrow> login_required_wrap f s data st = f s data st"
  by (simp add: login_required_wrap_def)

lemma check_keys_Some [simp]: "check_keys f (Some d) w = f d w"
  by (simp add: check_keys_def)

lemma wrap_response_Inr [simp]: "wrap_response (w, Inr (ok, v)) = (w, \<lparr>success = ok, result = v\<rparr>)"
  by (simp add: wrap_response_def error_wrap_def)

lemma Some_in_left_outer [simp]: "Some r \<in> set (left_outer xs) \<longleftrightarrow> r \<in> set xs"
  by (auto simp: left_outer_def)



lemma error_wrap_Inr [simp]: "error_wrap (Inr (ok, v)) = \<lparr>success = ok, result = v\<rparr>"
  by (simp add: error_wrap_def)

lemma wrap_response_Inl [simp]: "wrap_response (w, Inl e) = (w, error_wrap (Inl e))"
  by (simp add: wrap_response_def)

lemma ex_dm_store_get_dm:
  "db_get_dm ex_dm_store 1 = Inr (dm.extend \<lparr>d_id = 1, d_public_keys = [], d_name = None,
       d_created_at = ''2024-01-01T00:00:00.000000''\<rparr>
     \<lparr>dd_users = [''alice'', ''bob''], dd_latest_message = None\<rparr>)"
  by (simp add: db_get_dm_def dm_rows_def ex_dm_store_def ex_store_def ex_user_def latest_rows_def)


section \<open>Theorems: reading a user\<close>

lemma find_Some_filter: "find P xs = Some u \<Longrightarrow> \<exists>r. filter P xs = u # r"
  by (induction xs) (auto split: if_splits)

lemma db_get_user_find:
  "find (\<lambda>u. u_username u = username) (users s) = Some u \<Longrightarrow> db_get_user s username = Inr u"
  using find_Some_filter[of "\<lambda>u. u_username u = username" "users s" u]
  by (auto simp: db_get_user_def)

lemma db_user_exists_find:
  "find (\<lambda>u. u_username u = username) (users s) = Some u \<Longrightarrow> db_user_exists s username"
  using find_Some_filter[of "\<lambda>u. u_username u = username" "users s" u]
  by (auto simp: db_user_exists_def)

lemma fcard_pos_iff: "(0 < fcard A) = (A \<noteq> {||})"
  by (metis fcard_fempty fcard_seteq fempty_fsubsetI gr_zeroI less_nat_zero_code not_less)

text \<open>
  Claim C10. For a logged-in caller and a target whose row in the user table is \<open>u\<close>,
  \<^verbatim>\<open>get_user\<close> succeeds with the profile of \<open>u\<close> (its name, keys, biography and picture),
  whose status is \<open>offline\<close> when the presence map has no connection of the target,
  whatever is stored, and the stored status when it has one; the server state, and with it
  the stored status, is as before.
\<close>

theorem get_user_offline_status:
  assumes "logged_in s"
    and "find (\<lambda>u. u_username u = username) (users (db st)) = Some u"
  shows "get_user s (Some username) st =
      (st, \<lparr>success = True, result = RProfile
         \<lparr>p_username = u_username u, p_public_key = u_public_key u, p_spk = u_spk u,
          p_sig = u_sig u,
          p_status = (if name_map st username = {||} then ''offline'' else u_status u),
          p_biography = u_biography u, p_profile_picture = u_profile_picture u\<rparr>\<rparr>)"
  using assms db_get_user_find[OF assms(2)] db_user_exists_find[OF assms(2)]
  by (simp add: get_user_def get_user_body_def is_user_online_def fcard_pos_iff exclude_keys_def)


theorem get_user_offline_status_witness:
  "get_user (ex_session ''alice'') (Some ''bob'') (ex_state ex_busy_store) =
     (ex_state ex_busy_store, \<lparr>success = True, result = RProfile
        \<lparr>p_username = ''bob'', p_public_key = ex_key, p_spk = Some ''spk_bob'',
         p_sig = Some ''sig_bob'', p_status = ''offline'', p_biography = [],
         p_profile_picture = []\<rparr>\<rparr>)
   \<and> get_user (ex_session ''alice'') (Some ''bob'')
        ((ex_state ex_busy_store)\<lparr>name_map := ex_presence\<rparr>) =
     ((ex_state ex_busy_store)\<lparr>name_map := ex_presence\<rparr>, \<lparr>success = True, result = RProfile
        \<lparr>p_username = ''bob'', p_public_key = ex_key, p_spk = Some ''spk_bob'',
         p_sig = Some ''sig_bob'', p_status = ''busy'', p_biography = [],
         p_profile_picture = []\<rparr>\<rparr>)"
proof -
  let ?b = "(ex_user ''bob'')\<lparr>u_status := ''busy''\<rparr>"
  have a: "logged_in (ex_session ''alice'')" by (simp add: ex_session_def)
  have f1: "find (\<lambda>u. u_username u = ''bob'') (users (db (ex_state ex_busy_store))) = Some ?b"
    by (simp add: ex_state_def ex_busy_store_def ex_store_def ex_user_def)
  have f2: "find (\<lambda>u. u_username u = ''bob'')
      (users (db ((ex_state ex_busy_store)\<lparr>name_map := ex_presence\<rparr>))) = Some ?b"
    by (simp add: ex_state_def ex_busy_store_def ex_store_def ex_user_def)
  have n1: "name_map (ex_state ex_busy_store) ''bob'' = {||}" by (simp add: ex_state_def)
  have n2: "name_map ((ex_state ex_busy_store)\<lparr>name_map := ex_presence\<rparr>) ''bob'' \<noteq> {||}"
    by (simp add: ex_presence_def)
  from get_user_offline_status[OF a f1] get_user_offline_status[OF a f2] n1 n2
  show ?thesis by (simp add: ex_user_def)
qed


section \<open>Lemmas: the rows of \<^verbatim>\<open>get_dm\<close>\<close>









section \<open>Theorems: the friendship test of a DM of two\<close>











section \<open>Theorems: blocking a user\<close>

text \<open>
  Claim C3. The guard of \<^verbatim>\<open>block_user\<close> tests that the sender exists, not the target.
  With a target that is no user the handler passes the guard and raises in
  \<^verbatim>\<open>create_relation\<close>, so the caller reads the catch-all message.
\<close>

theorem block_user_unknown_target:
  "block_user (ex_session ''alice'') (Some ''ghost'') (ex_state ex_store)
     = (ex_state ex_store, \<lparr>success = False, result = RStr ''Internal server error.''\<rparr>)"
  by (simp add: block_user_def block_user_body_def session_username_def ex_session_def
        ex_state_def ex_store_def ex_user_def db_user_exists_def db_is_relation_def
        db_get_of_status_def db_create_relation_def db_get_user_def left_outer_def error_wrap_def)

text \<open>
  The same happens when the caller blocks itself (the table's check constraint refuses the
  row), while \<^verbatim>\<open>send_friend_request\<close> tests the target and answers with a message of
  its own.
\<close>

lemma block_user_self:
  "block_user (ex_session ''alice'') (Some ''alice'') (ex_state ex_store)
     = (ex_state ex_store, \<lparr>success = False, result = RStr ''Internal server error.''\<rparr>)"
  by (simp add: block_user_def block_user_body_def session_username_def ex_session_def
        ex_state_def ex_store_def ex_user_def db_user_exists_def db_is_relation_def
        db_get_of_status_def db_create_relation_def db_get_user_def left_outer_def error_wrap_def)

lemma send_friend_request_unknown_target:
  "send_friend_request (ex_session ''alice'') (Some ''ghost'') (ex_state ex_store)
     = (ex_state ex_store, \<lparr>success = False, result = RStr ''Could not friend that person.''\<rparr>)"
  by (simp add: send_friend_request_def send_friend_request_body_def session_username_def ex_session_def
        ex_state_def ex_store_def ex_user_def db_user_exists_def db_is_relation_def)


section \<open>Theorems: scheduled messages\<close>







lemma error_wrap_Inl_not_success [simp]:
  "error_wrap (Inl e) \<noteq> \<lparr>success = True, result = r\<rparr>"
  by (cases e) (simp_all add: error_wrap_def)








section \<open>Theorems: the latest message of a DM\<close>











section \<open>Theorems: the lockout\<close>

lemma login_fail_wrap_locked:
  "now - lockout_start s < delta \<Longrightarrow>
     login_fail_wrap f now (st, s)
       = ((st, s), Inr (False, RStr ''You have been locked out for 60 seconds.''))"
  by (simp add: login_fail_wrap_def)

lemma login_fail_wrap_success:
  "delta \<le> now - lockout_start s \<Longrightarrow> f (st, s) = (w1, Inr (True, v)) \<Longrightarrow>
     login_fail_wrap f now (st, s) = (w1, Inr (True, v))"
  by (cases w1) (simp add: login_fail_wrap_def)

lemma login_fail_wrap_raise:
  "delta \<le> now - lockout_start s \<Longrightarrow> f (st, s) = (w1, Inl e) \<Longrightarrow>
     login_fail_wrap f now (st, s) = (w1, Inl e)"
  by (simp add: login_fail_wrap_def)

lemma login_fail_wrap_failure:
  "delta \<le> now - lockout_start s \<Longrightarrow> f (st, s) = ((st1, s1), Inr (False, RStr m)) \<Longrightarrow>
     login_fail_wrap f now (st, s) =
       (if login_fails s1 + 1 \<ge> 10
        then ((st1, s1\<lparr>login_fails := login_fails s1 + 1, lockout_start := now\<rparr>),
              Inr (False, RStr (m @ '' You have been locked out for 60 seconds.'')))
        else ((st1, s1\<lparr>login_fails := login_fails s1 + 1\<rparr>),
              Inr (False, RStr (m @ '' '' @ str_int (10 - (login_fails s1 + 1))
                       @ '' attempts left before lockout.''))))"
  by (simp add: login_fail_wrap_def result_plus_def Let_def)

text \<open>What the two handlers do to the counter and the lockout start.\<close>

lemma login_body_session:
  "login_body gen username (st, s) = ((st1, s1), out) \<Longrightarrow>
     st1 = st \<and> login_fails s1 = login_fails s \<and> lockout_start s1 = lockout_start s
     \<and> logged_in s1 = logged_in s
     \<and> (\<forall>v. out = Inr (False, v) \<longrightarrow> (\<exists>m. v = RStr m) \<and> s1 = s)"
  by (auto simp: login_body_def Let_def split: if_splits sum.splits prod.splits)

lemma login_challenge_response_body_session:
  "login_challenge_response_body sid r (st, s) = ((st1, s1), out) \<Longrightarrow>
     lockout_start s1 = lockout_start s
     \<and> (\<forall>v. out = Inr (False, v) \<longrightarrow>
           (\<exists>m. v = RStr m) \<and> st1 = st \<and> login_fails s1 = login_fails s \<and> logged_in s1 = logged_in s)
     \<and> ((\<forall>v. out \<noteq> Inr (False, v)) \<longrightarrow>
           challenge_response s = Some r \<and> login_fails s1 = 0 \<and> logged_in s1)"
  by (auto simp: login_challenge_response_body_def Let_def
        split: if_splits sum.splits prod.splits option.splits)

lemma check_keys_login_session:
  "check_keys (login_body gen) data (st, s) = ((st1, s1), out) \<Longrightarrow>
     st1 = st \<and> login_fails s1 = login_fails s \<and> lockout_start s1 = lockout_start s
     \<and> logged_in s1 = logged_in s
     \<and> (\<forall>v. out = Inr (False, v) \<longrightarrow> (\<exists>m. v = RStr m) \<and> s1 = s)"
  by (cases data) (auto simp: check_keys_def dest: login_body_session)

lemma check_keys_response_session:
  "check_keys (login_challenge_response_body sid) data (st, s) = ((st1, s1), out) \<Longrightarrow>
     lockout_start s1 = lockout_start s
     \<and> (\<forall>v. out = Inr (False, v) \<longrightarrow>
           (\<exists>m. v = RStr m) \<and> st1 = st \<and> login_fails s1 = login_fails s \<and> logged_in s1 = logged_in s)
     \<and> ((\<forall>v. out \<noteq> Inr (False, v)) \<longrightarrow>
           data = challenge_response s \<and> data \<noteq> None \<and> login_fails s1 = 0 \<and> logged_in s1)"
proof (cases data)
  case None
  assume "check_keys (login_challenge_response_body sid) data (st, s) = ((st1, s1), out)"
  with None show ?thesis by (auto simp: check_keys_def)
next
  case (Some r)
  assume "check_keys (login_challenge_response_body sid) data (st, s) = ((st1, s1), out)"
  with Some have "login_challenge_response_body sid r (st, s) = ((st1, s1), out)" by simp
  from login_challenge_response_body_session[OF this] Some show ?thesis by auto
qed

text \<open>The wrapper over a handler whose failures are strings.\<close>

lemma login_fail_wrap_cases:
  assumes "login_fail_wrap f now (st, s) = ((st', s'), out')"
    and "f (st, s) = ((st1, s1), out)"
    and "\<forall>v. out = Inr (False, v) \<longrightarrow> (\<exists>m. v = RStr m)"
    and "delta \<le> now - lockout_start s"
  shows "st' = st1
    \<and> ((\<forall>v. out \<noteq> Inr (False, v)) \<longrightarrow> out' = out \<and> s' = s1)
    \<and> ((\<exists>v. out = Inr (False, v)) \<longrightarrow>
          (\<exists>m. out' = Inr (False, RStr m)) \<and> login_fails s' = login_fails s1 + 1
          \<and> logged_in s' = logged_in s1
          \<and> lockout_start s' = (if 10 \<le> login_fails s1 + 1 then now else lockout_start s1))"
proof (cases out)
  case (Inl e)
  with assms show ?thesis by (auto simp: login_fail_wrap_raise)
next
  case (Inr p)
  obtain ok v where p: "p = (ok, v)" by (cases p)
  show ?thesis
  proof (cases ok)
    case True
    with assms Inr p show ?thesis by (auto simp: login_fail_wrap_success)
  next
    case False
    with assms(3) Inr p obtain m where m: "v = RStr m" by auto
    from assms(1) login_fail_wrap_failure[OF assms(4), of f st st1 s1 m] assms(2) Inr p False m
    show ?thesis by (auto split: if_splits)
  qed
qed

lemma error_wrap_Inl_result:
  "error_wrap (Inl e) = \<lparr>success = False, result = RStr ''Malformed data.''\<rparr>
   \<or> error_wrap (Inl e) = \<lparr>success = False, result = RStr ''Internal server error.''\<rparr>"
  by (cases e) (simp_all add: error_wrap_def)

lemma auth_event_locked:
  "now - lockout_start s < delta \<Longrightarrow>
     auth_event gen sid now req (st, s)
       = ((st, s), \<lparr>success = False, result = RStr ''You have been locked out for 60 seconds.''\<rparr>)"
  by (cases req) (simp_all add: auth_event_def login_def login_challenge_response_def
        login_fail_wrap_locked)

lemma db_get_user_Inr_exists: "db_get_user s u = Inr usr \<Longrightarrow> db_user_exists s u"
  by (auto simp: db_get_user_def db_user_exists_def split: list.splits)

lemma login_body_ok:
  "\<not> logged_in s \<Longrightarrow> db_get_user (db st) u = Inr usr \<Longrightarrow> gen (u_public_key usr) = Inr (chal, expected)
     \<Longrightarrow> login_body gen u (st, s)
         = ((st, s\<lparr>challenge_response := Some expected, s_username := Some u\<rparr>), Inr (True, RStr chal))"
  by (simp add: login_body_def Let_def db_get_user_Inr_exists)

lemma login_challenge_response_body_match:
  assumes "challenge_response s = Some r" "s_username s = Some u" "db_user_exists (db st) u"
  shows "\<exists>st2. login_challenge_response_body sid r (st, s)
     = ((st2, s\<lparr>challenge_response := None, logged_in := True, login_fails := 0\<rparr>),
        Inr (True, RBool True))"
proof -
  obtain st1 where j: "login_join_rooms sid u st = (st1, Inr ())" and ex1: "db_user_exists (db st1) u"
    using login_join_rooms_ok[OF assms(3)] by blast
  obtain usr where g: "db_get_user (db st1) u = Inr usr"
    using db_get_user_exists[OF ex1] by blast
  from assms j g show ?thesis
    by (simp add: login_challenge_response_body_def Let_def)
qed

lemma ex_tenth_failure:
  "auth_event ex_gen ''sid1'' 1000000000 (Login (Some ''nobody''))
      (ex_state ex_store, ex_locked\<lparr>login_fails := 9, lockout_start := 0\<rparr>)
   = ((ex_state ex_store, ex_locked\<lparr>login_fails := 10, lockout_start := 1000000000\<rparr>),
      \<lparr>success = False,
       result = RStr ''User does not exist. You have been locked out for 60 seconds.''\<rparr>)"
  by (simp add: auth_event_def login_def login_fail_wrap_def login_body_def delta_def
        ex_locked_def ex_state_def ex_store_def ex_user_def db_user_exists_def result_plus_def
        Let_def)

text \<open>
  Claim C4, as amended. Take one call of \<^verbatim>\<open>login\<close> or \<^verbatim>\<open>login_challenge_response\<close> on a
  connection, at the instant \<open>now\<close>.
  \<^item> Less than 60 seconds after \<open>lockout_start\<close> the call fails with the lockout message
    and changes nothing: a rejected call is not counted.
  \<^item> Otherwise a failure that the handler returns adds one to \<open>login_fails\<close> (a failure
    by an exception shows as one of the two catch-all messages); when the counter is then
    at 10 or more, \<open>lockout_start\<close> is \<open>now\<close> and every call of the next 60 seconds
    fails with the lockout message; below 10 \<open>lockout_start\<close> stays.
  \<^item> A success leaves \<open>lockout_start\<close>; a successful \<^verbatim>\<open>login\<close> leaves the counter, a
    successful challenge response sets it to 0.
  \<^item> The counter stays, grows by one, or is set to 0 by a response that matches the
    pending value: it never goes down otherwise.
  \<^item> At 60 seconds or more after \<open>lockout_start\<close>, \<^verbatim>\<open>login\<close> with the name of an existing
    user on a connection that is not logged in succeeds, and the expected response then
    succeeds, logs the connection in and resets the counter.
\<close>

theorem lockout_behaviour:
  assumes "auth_event gen sid now req (st, s) = ((st', s'), resp)"
  shows "(now - lockout_start s < delta \<longrightarrow>
            resp = \<lparr>success = False, result = RStr ''You have been locked out for 60 seconds.''\<rparr>
            \<and> st' = st \<and> s' = s)
    \<and> (delta \<le> now - lockout_start s \<and> \<not> success resp \<longrightarrow>
           (login_fails s' = login_fails s + 1
            \<and> (10 \<le> login_fails s' \<longrightarrow>
                  lockout_start s' = now
                  \<and> (\<forall>gen2 sid2 now2 req2. now2 - now < delta \<longrightarrow>
                        snd (auth_event gen2 sid2 now2 req2 (st', s'))
                          = \<lparr>success = False,
                             result = RStr ''You have been locked out for 60 seconds.''\<rparr>))
            \<and> (login_fails s' < 10 \<longrightarrow> lockout_start s' = lockout_start s))
           \<or> result resp = RStr ''Malformed data.''
           \<or> result resp = RStr ''Internal server error.'')
    \<and> (delta \<le> now - lockout_start s \<and> success resp \<longrightarrow>
           lockout_start s' = lockout_start s
           \<and> (case req of
                 Login d \<Rightarrow> login_fails s' = login_fails s
               | Login_challenge_response d \<Rightarrow>
                   login_fails s' = 0 \<and> logged_in s' \<and> d = challenge_response s \<and> d \<noteq> None))
    \<and> (login_fails s' = login_fails s \<or> login_fails s' = login_fails s + 1
         \<or> (login_fails s' = 0
             \<and> (\<exists>r. req = Login_challenge_response (Some r) \<and> challenge_response s = Some r)))
    \<and> (\<forall>u usr chal expected now2.
           delta \<le> now - lockout_start s \<and> delta \<le> now2 - lockout_start s
           \<and> req = Login (Some u) \<and> \<not> logged_in s
           \<and> db_get_user (db st) u = Inr usr \<and> gen (u_public_key usr) = Inr (chal, expected)
         \<longrightarrow> resp = \<lparr>success = True, result = RStr chal\<rparr>
             \<and> success (snd (auth_event gen sid now2
                    (Login_challenge_response (Some expected)) (st', s')))
             \<and> logged_in (snd (fst (auth_event gen sid now2
                    (Login_challenge_response (Some expected)) (st', s'))))
             \<and> login_fails (snd (fst (auth_event gen sid now2
                    (Login_challenge_response (Some expected)) (st', s')))) = 0)"
proof -
  let ?lock = "\<lparr>success = False, result = RStr ''You have been locked out for 60 seconds.''\<rparr>"
  define F where "F = (case req of
      Login d \<Rightarrow> check_keys (login_body gen) d
    | Login_challenge_response d \<Rightarrow> check_keys (login_challenge_response_body sid) d)"
  have ev: "auth_event gen sid now req (st, s) = wrap_response (login_fail_wrap F now (st, s))"
    by (cases req) (simp_all add: auth_event_def login_def login_challenge_response_def F_def)
  obtain out' where W: "login_fail_wrap F now (st, s) = ((st', s'), out')"
    and resp: "resp = error_wrap out'"
    using assms unfolding ev wrap_response_def by (metis fst_conv snd_conv surjective_pairing)
  obtain st1 s1 out where F: "F (st, s) = ((st1, s1), out)"
    by (metis surjective_pairing)
  have H1: "lockout_start s1 = lockout_start s"
    and H2: "\<forall>v. out = Inr (False, v) \<longrightarrow>
               (\<exists>m. v = RStr m) \<and> st1 = st \<and> login_fails s1 = login_fails s
               \<and> logged_in s1 = logged_in s"
    and H3: "(\<forall>v. out \<noteq> Inr (False, v)) \<longrightarrow>
               (case req of
                  Login d \<Rightarrow> login_fails s1 = login_fails s
                | Login_challenge_response d \<Rightarrow>
                    login_fails s1 = 0 \<and> logged_in s1 \<and> d = challenge_response s \<and> d \<noteq> None)"
  proof -
    show "lockout_start s1 = lockout_start s"
    proof (cases req)
      case (Login d)
      with F have "check_keys (login_body gen) d (st, s) = ((st1, s1), out)" by (simp add: F_def)
      from check_keys_login_session[OF this] show ?thesis by auto
    next
      case (Login_challenge_response d)
      with F have "check_keys (login_challenge_response_body sid) d (st, s) = ((st1, s1), out)"
        by (simp add: F_def)
      from check_keys_response_session[OF this] show ?thesis by auto
    qed
    show "\<forall>v. out = Inr (False, v) \<longrightarrow>
               (\<exists>m. v = RStr m) \<and> st1 = st \<and> login_fails s1 = login_fails s
               \<and> logged_in s1 = logged_in s"
    proof (cases req)
      case (Login d)
      with F have "check_keys (login_body gen) d (st, s) = ((st1, s1), out)" by (simp add: F_def)
      from check_keys_login_session[OF this] show ?thesis by auto
    next
      case (Login_challenge_response d)
      with F have "check_keys (login_challenge_response_body sid) d (st, s) = ((st1, s1), out)"
        by (simp add: F_def)
      from check_keys_response_session[OF this] show ?thesis by auto
    qed
    show "(\<forall>v. out \<noteq> Inr (False, v)) \<longrightarrow>
               (case req of
                  Login d \<Rightarrow> login_fails s1 = login_fails s
                | Login_challenge_response d \<Rightarrow>
                    login_fails s1 = 0 \<and> logged_in s1 \<and> d = challenge_response s \<and> d \<noteq> None)"
    proof (cases req)
      case (Login d)
      with F have "check_keys (login_body gen) d (st, s) = ((st1, s1), out)" by (simp add: F_def)
      from check_keys_login_session[OF this] Login show ?thesis by auto
    next
      case (Login_challenge_response d)
      with F have "check_keys (login_challenge_response_body sid) d (st, s) = ((st1, s1), out)"
        by (simp add: F_def)
      from check_keys_response_session[OF this] Login_challenge_response show ?thesis by auto
    qed
  qed
  have strs: "\<forall>v. out = Inr (False, v) \<longrightarrow> (\<exists>m. v = RStr m)" using H2 by blast

  have P1: "resp = ?lock \<and> st' = st \<and> s' = s" if "now - lockout_start s < delta"
    using W resp login_fail_wrap_locked[OF that, of F st] by (auto simp: error_wrap_def)

  have C: "st' = st1
    \<and> ((\<forall>v. out \<noteq> Inr (False, v)) \<longrightarrow> out' = out \<and> s' = s1)
    \<and> ((\<exists>v. out = Inr (False, v)) \<longrightarrow>
          (\<exists>m. out' = Inr (False, RStr m)) \<and> login_fails s' = login_fails s1 + 1
          \<and> logged_in s' = logged_in s1
          \<and> lockout_start s' = (if 10 \<le> login_fails s1 + 1 then now else lockout_start s1))"
    if "delta \<le> now - lockout_start s"
    by (rule login_fail_wrap_cases[OF W F strs that])

  have P2: "(login_fails s' = login_fails s + 1
            \<and> (10 \<le> login_fails s' \<longrightarrow>
                  lockout_start s' = now
                  \<and> (\<forall>gen2 sid2 now2 req2. now2 - now < delta \<longrightarrow>
                        snd (auth_event gen2 sid2 now2 req2 (st', s')) = ?lock))
            \<and> (login_fails s' < 10 \<longrightarrow> lockout_start s' = lockout_start s))
           \<or> result resp = RStr ''Malformed data.''
           \<or> result resp = RStr ''Internal server error.''"
    if u: "delta \<le> now - lockout_start s" and f: "\<not> success resp"
  proof (cases "\<exists>v. out = Inr (False, v)")
    case True
    with C[OF u] H1 H2 have a: "login_fails s' = login_fails s + 1"
      and b: "lockout_start s' = (if 10 \<le> login_fails s + 1 then now else lockout_start s)"
      by auto
    have "snd (auth_event gen2 sid2 now2 req2 (st', s')) = ?lock"
      if "10 \<le> login_fails s'" "now2 - now < delta" for gen2 sid2 now2 req2
    proof -
      from that a b have "now2 - lockout_start s' < delta" by simp
      from auth_event_locked[OF this] show ?thesis by simp
    qed
    with a b show ?thesis by auto
  next
    case False
    with C[OF u] have o: "out' = out" by blast
    show ?thesis
    proof (cases out)
      case (Inl e)
      with o resp error_wrap_Inl_result[of e] show ?thesis by auto
    next
      case (Inr p)
      with False obtain v where "out = Inr (True, v)" by (cases p) auto
      with o resp f show ?thesis by (simp add: error_wrap_def)
    qed
  qed

  have succ: "\<forall>v. out \<noteq> Inr (False, v)" "out' = out" "s' = s1"
    if u: "delta \<le> now - lockout_start s" and f: "success resp"
  proof -
    show nf: "\<forall>v. out \<noteq> Inr (False, v)"
    proof (rule ccontr)
      assume "\<not> (\<forall>v. out \<noteq> Inr (False, v))"
      with C[OF u] obtain m where "out' = Inr (False, RStr m)" by blast
      with resp f show False by (simp add: error_wrap_def)
    qed
    with C[OF u] show "out' = out" "s' = s1" by blast+
  qed

  have P3: "lockout_start s' = lockout_start s
           \<and> (case req of
                 Login d \<Rightarrow> login_fails s' = login_fails s
               | Login_challenge_response d \<Rightarrow>
                   login_fails s' = 0 \<and> logged_in s' \<and> d = challenge_response s \<and> d \<noteq> None)"
    if u: "delta \<le> now - lockout_start s" and f: "success resp"
    using succ[OF u f] H1 H3 by (cases req) simp_all

  have P4: "login_fails s' = login_fails s \<or> login_fails s' = login_fails s + 1
         \<or> (login_fails s' = 0
             \<and> (\<exists>r. req = Login_challenge_response (Some r) \<and> challenge_response s = Some r))"
  proof (cases "now - lockout_start s < delta")
    case True
    from P1[OF True] show ?thesis by simp
  next
    case False
    then have u: "delta \<le> now - lockout_start s" by simp
    show ?thesis
    proof (cases "\<exists>v. out = Inr (False, v)")
      case True
      with C[OF u] H2 show ?thesis by auto
    next
      case nf: False
      with C[OF u] have "s' = s1" by blast
      with nf H3 show ?thesis by (cases req) auto
    qed
  qed

  have P5: "resp = \<lparr>success = True, result = RStr chal\<rparr>
             \<and> success (snd (auth_event gen sid now2
                    (Login_challenge_response (Some expected)) (st', s')))
             \<and> logged_in (snd (fst (auth_event gen sid now2
                    (Login_challenge_response (Some expected)) (st', s'))))
             \<and> login_fails (snd (fst (auth_event gen sid now2
                    (Login_challenge_response (Some expected)) (st', s')))) = 0"
    if u: "delta \<le> now - lockout_start s" and u2: "delta \<le> now2 - lockout_start s"
      and r: "req = Login (Some u)" and nl: "\<not> logged_in s"
      and g: "db_get_user (db st) u = Inr usr" and c: "gen (u_public_key usr) = Inr (chal, expected)"
    for u usr chal expected now2
  proof -
    let ?s1 = "s\<lparr>challenge_response := Some expected, s_username := Some u\<rparr>"
    have "F (st, s) = ((st, ?s1), Inr (True, RStr chal))"
      using login_body_ok[of s st u usr gen chal expected] nl g c r by (simp add: F_def)
    from login_fail_wrap_success[where f = F and st = st and s = s, OF u this] W
    have e: "st' = st" "s' = ?s1" "out' = Inr (True, RStr chal)" by simp_all
    obtain st2 where b: "login_challenge_response_body sid expected (st, ?s1)
       = ((st2, ?s1\<lparr>challenge_response := None, logged_in := True, login_fails := 0\<rparr>),
          Inr (True, RBool True))"
      using login_challenge_response_body_match[of ?s1 expected u st sid]
        db_get_user_Inr_exists[OF g] by auto
    have u2': "delta \<le> now2 - lockout_start ?s1" using u2 by simp
    have "check_keys (login_challenge_response_body sid) (Some expected) (st, ?s1)
       = ((st2, ?s1\<lparr>challenge_response := None, logged_in := True, login_fails := 0\<rparr>),
          Inr (True, RBool True))"
      using b by simp
    from login_fail_wrap_success[where f = "check_keys (login_challenge_response_body sid) (Some expected)"
        and st = st and s = ?s1, OF u2' this]
    have "auth_event gen sid now2 (Login_challenge_response (Some expected)) (st, ?s1)
       = ((st2, ?s1\<lparr>challenge_response := None, logged_in := True, login_fails := 0\<rparr>),
          \<lparr>success = True, result = RBool True\<rparr>)"
      by (simp add: auth_event_def login_challenge_response_def)
    with e resp show ?thesis by simp
  qed
  from P1 P2 P3 P4 P5 show ?thesis by blast
qed

theorem lockout_behaviour_witness:
  "login_fails (snd (fst (auth_event ex_gen ''sid1'' 1000000000 (Login (Some ''nobody''))
      (ex_state ex_store, ex_locked\<lparr>login_fails := 9, lockout_start := 0\<rparr>)))) = 10
   \<and> snd (auth_event ex_gen ''sid1'' 1059999999 (Login (Some ''alice''))
        (fst (auth_event ex_gen ''sid1'' 1000000000 (Login (Some ''nobody''))
           (ex_state ex_store, ex_locked\<lparr>login_fails := 9, lockout_start := 0\<rparr>))))
       = \<lparr>success = False, result = RStr ''You have been locked out for 60 seconds.''\<rparr>
   \<and> snd (auth_event ex_gen ''sid1'' 1060000000 (Login (Some ''alice'')) (ex_state ex_store, ex_locked))
       = \<lparr>success = True, result = RStr ''chal''\<rparr>
   \<and> login_fails (snd (fst (auth_event ex_gen ''sid1'' 1060000005 (Login_challenge_response (Some ''resp''))
        (fst (auth_event ex_gen ''sid1'' 1060000000 (Login (Some ''alice''))
           (ex_state ex_store, ex_locked)))))) = 0"
proof -
  let ?s9 = "ex_locked\<lparr>login_fails := 9, lockout_start := 0\<rparr>"
  let ?r1 = "auth_event ex_gen ''sid1'' 1000000000 (Login (Some ''nobody'')) (ex_state ex_store, ?s9)"
  let ?r2 = "auth_event ex_gen ''sid1'' 1060000000 (Login (Some ''alice'')) (ex_state ex_store, ex_locked)"
  have e1: "?r1 = ((fst (fst ?r1), snd (fst ?r1)), snd ?r1)" by simp
  have e2: "?r2 = ((fst (fst ?r2), snd (fst ?r2)), snd ?r2)" by simp
  have u1: "delta \<le> 1000000000 - lockout_start ?s9" by (simp add: delta_def ex_locked_def)
  have f1: "\<not> success (snd ?r1)" "result (snd ?r1) \<noteq> RStr ''Malformed data.''"
    "result (snd ?r1) \<noteq> RStr ''Internal server error.''"
    by (simp_all add: ex_tenth_failure)
  from lockout_behaviour[OF e1] u1 f1
  have a: "login_fails (snd (fst ?r1)) = login_fails ?s9 + 1
      \<and> (10 \<le> login_fails (snd (fst ?r1)) \<longrightarrow>
            (\<forall>gen2 sid2 now2 req2. now2 - 1000000000 < delta \<longrightarrow>
               snd (auth_event gen2 sid2 now2 req2 (fst (fst ?r1), snd (fst ?r1)))
                 = \<lparr>success = False, result = RStr ''You have been locked out for 60 seconds.''\<rparr>))"
    by blast
  then have a1: "login_fails (snd (fst ?r1)) = 10" by (simp add: ex_locked_def)
  have "(1059999999::int) - 1000000000 < delta" by (simp add: delta_def)
  with a a1 have a2: "snd (auth_event ex_gen ''sid1'' 1059999999 (Login (Some ''alice'')) (fst ?r1))
       = \<lparr>success = False, result = RStr ''You have been locked out for 60 seconds.''\<rparr>"
    by (metis order_refl prod.collapse)
  have u2: "delta \<le> 1060000000 - lockout_start ex_locked"
    "delta \<le> 1060000005 - lockout_start ex_locked" "\<not> logged_in ex_locked"
    by (simp_all add: delta_def ex_locked_def)
  have g: "db_get_user (db (ex_state ex_store)) ''alice'' = Inr (ex_user ''alice'')"
    by (simp add: db_get_user_def ex_state_def ex_store_def ex_user_def)
  have c: "ex_gen (u_public_key (ex_user ''alice'')) = Inr (''chal'', ''resp'')"
    by (simp add: ex_gen_def)
  from lockout_behaviour[OF e2] u2 g c
  have b: "snd ?r2 = \<lparr>success = True, result = RStr ''chal''\<rparr>
     \<and> login_fails (snd (fst (auth_event ex_gen ''sid1'' 1060000005
           (Login_challenge_response (Some ''resp'')) (fst (fst ?r2), snd (fst ?r2))))) = 0"
    by blast
  from a1 a2 b show ?thesis by simp
qed

text \<open>
  Claim C4, as stated, fails for a call rejected by the lockout: it is a failed attempt
  of the login, and \<open>login_fails\<close> stays at 10.
\<close>

theorem lockout_rejection_not_counted:
  "snd (auth_event ex_gen ''sid1'' 1030000000 (Login (Some ''nobody'')) (ex_state ex_store, ex_locked))
     = \<lparr>success = False, result = RStr ''You have been locked out for 60 seconds.''\<rparr>
   \<and> login_fails (snd (fst (auth_event ex_gen ''sid1'' 1030000000 (Login (Some ''nobody''))
        (ex_state ex_store, ex_locked)))) = 10
   \<and> login_fails ex_locked = 10"
  by (simp add: auth_event_locked ex_locked_def delta_def)


section \<open>Theorems: failed handlers and the store\<close>

text \<open>
  Each function of \<^verbatim>\<open>database.py\<close> runs in a transaction of its own
  (\<^verbatim>\<open>atomic_wrapper\<close>); a handler has none around its calls. The exceptions the
  functions raise once a handler has written:
\<close>

lemma db_get_user_raises: "db_get_user s u = Inl e \<Longrightarrow> e = DoesNotExist"
  by (auto simp: db_get_user_def split: list.splits)

lemma db_get_dm_raises: "db_get_dm s i = Inl e \<Longrightarrow> e = IndexError \<or> e = AttributeError"
  by (auto simp: db_get_dm_def split: list.splits prod.splits option.splits if_splits)

lemma db_get_message_raises: "db_get_message s i = Inl e \<Longrightarrow> e = IndexError \<or> e = AttributeError"
  by (auto simp: db_get_message_def split: list.splits prod.splits option.splits if_splits)

lemma db_create_relation_raises:
  "db_create_relation s a b c = Inl e \<Longrightarrow> e = DoesNotExist \<or> e = IntegrityError"
  by (auto simp: db_create_relation_def split: sum.splits if_splits dest: db_get_user_raises)

lemma db_delete_relation_raises: "db_delete_relation s a b = Inl e \<Longrightarrow> e = DoesNotExist"
  by (auto simp: db_delete_relation_def split: list.splits)

lemma db_append_x3dh_raises: "db_append_x3dh s n x = Inl e \<Longrightarrow> e = DoesNotExist"
  by (auto simp: db_append_x3dh_def split: sum.splits dest: db_get_user_raises)

lemma send_x3dh_raises:
  "send_x3dh sender key_tree dm_id i pairs st = (st', Inl e) \<Longrightarrow> e = DoesNotExist"
proof (induction sender key_tree dm_id i pairs st rule: send_x3dh.induct)
  case (1 sender key_tree dm_id i st)
  then show ?case by simp
next
  case (2 sender key_tree dm_id i name spk ek pairs st)
  then show ?case
    by (auto split: sum.splits if_splits dest: db_get_user_raises db_append_x3dh_raises)
qed

lemma join_new_dm_raises: "join_new_dm st i = Inl e \<Longrightarrow> e = IndexError \<or> e = AttributeError"
  by (auto simp: join_new_dm_def split: sum.splits dest: db_get_dm_raises)

text \<open>
  A handler that returns a failure, or raises \<^verbatim>\<open>ValueError\<close>, has not changed the state:
  its checks, and the parsing and verification of keys and signatures, come before its
  first write.
\<close>

lemma leave_dm_body_atomic:
  "leave_dm_body s d st = (st', out) \<Longrightarrow> out = Inl ValueError \<or> (\<exists>v. out = Inr (False, v))
     \<Longrightarrow> st' = st"
  by (auto simp: leave_dm_body_def split: sum.splits if_splits dest: db_get_dm_raises)

lemma set_dm_body_atomic:
  "set_dm_body s d st = (st', out) \<Longrightarrow> out = Inl ValueError \<or> (\<exists>v. out = Inr (False, v))
     \<Longrightarrow> st' = st"
  by (auto simp: set_dm_body_def split: sum.splits if_splits prod.splits dest: db_get_dm_raises)

lemma get_user_body_atomic:
  "get_user_body s d st = (st', out) \<Longrightarrow> st' = st"
  by (auto simp: get_user_body_def split: sum.splits if_splits)

lemma ping_typing_body_atomic:
  "ping_typing_body sid s d st = (st', out) \<Longrightarrow> out = Inl ValueError \<or> (\<exists>v. out = Inr (False, v))
     \<Longrightarrow> st' = st"
  by (auto simp: ping_typing_body_def split: sum.splits if_splits)

lemma get_message_history_body_atomic:
  "get_message_history_body p s d st = (st', out) \<Longrightarrow> st' = st"
  by (auto simp: get_message_history_body_def split: sum.splits if_splits prod.splits)

lemma cancel_scheduled_message_body_atomic:
  "cancel_scheduled_message_body s d st = (st', out) \<Longrightarrow> out = Inl ValueError \<or> (\<exists>v. out = Inr (False, v))
     \<Longrightarrow> st' = st"
  by (auto simp: cancel_scheduled_message_body_def split: sum.splits if_splits prod.splits option.splits)

lemma unfriend_body_atomic:
  "unfriend_body s d st = (st', out) \<Longrightarrow> out = Inl ValueError \<or> (\<exists>v. out = Inr (False, v))
     \<Longrightarrow> st' = st"
  by (auto simp: unfriend_body_def split: sum.splits if_splits)

lemma unblock_user_body_atomic:
  "unblock_user_body s d st = (st', out) \<Longrightarrow> out = Inl ValueError \<or> (\<exists>v. out = Inr (False, v))
     \<Longrightarrow> st' = st"
  by (auto simp: unblock_user_body_def split: sum.splits if_splits)

lemma block_user_body_atomic:
  "block_user_body s d st = (st', out) \<Longrightarrow> out = Inl ValueError \<or> (\<exists>v. out = Inr (False, v))
     \<Longrightarrow> st' = st"
  by (auto simp: block_user_body_def split: sum.splits if_splits
      dest: db_create_relation_raises db_delete_relation_raises)

lemma send_friend_request_body_atomic:
  "send_friend_request_body s d st = (st', out) \<Longrightarrow> out = Inl ValueError \<or> (\<exists>v. out = Inr (False, v))
     \<Longrightarrow> st' = st"
  by (auto simp: send_friend_request_body_def split: sum.splits if_splits
      dest: db_create_relation_raises db_delete_relation_raises)


lemma ack_friend_request_body_atomic:
  "ack_friend_request_body s d st = (st', out) \<Longrightarrow> out = Inl ValueError \<or> (\<exists>v. out = Inr (False, v))
     \<Longrightarrow> st' = st"
  by (auto simp: ack_friend_request_body_def split: sum.splits if_splits prod.splits
      dest: db_delete_relation_raises)

lemma register_body_atomic:
  "register_body eddsa s d st = (st', out) \<Longrightarrow> out = Inl ValueError \<or> (\<exists>v. out = Inr (False, v))
     \<Longrightarrow> st' = st"
  by (auto simp: register_body_def split: sum.splits if_splits prod.splits option.splits)

lemma set_user_body_atomic:
  "set_user_body eddsa sid s d st = (st', out) \<Longrightarrow> out = Inl ValueError \<or> (\<exists>v. out = Inr (False, v))
     \<Longrightarrow> st' = st"
  by (auto simp: set_user_body_def split: sum.splits if_splits dest: db_get_user_raises)

lemma create_dm_body_atomic:
  "create_dm_body clk s d st = (st', out) \<Longrightarrow> out = Inl ValueError \<or> (\<exists>v. out = Inr (False, v))
     \<Longrightarrow> st' = st"
  by (auto simp: create_dm_body_def Let_def split: sum.splits if_splits prod.splits option.splits
      dest: send_x3dh_raises join_new_dm_raises)

lemma set_message_body_atomic:
  "set_message_body eddsa s d st = (st', out) \<Longrightarrow> out = Inl ValueError \<or> (\<exists>v. out = Inr (False, v))
     \<Longrightarrow> st' = st"
  by (auto simp: set_message_body_def split: sum.splits if_splits prod.splits bool.splits
      dest: db_get_message_raises)

lemma add_reaction_body_atomic:
  "add_reaction_body eddsa s d st = (st', out) \<Longrightarrow> out = Inl ValueError \<or> (\<exists>v. out = Inr (False, v))
     \<Longrightarrow> st' = st"
  by (auto simp: add_reaction_body_def split: sum.splits if_splits prod.splits
      dest: db_get_message_raises)

lemma remove_reaction_body_atomic:
  "remove_reaction_body s d st = (st', out) \<Longrightarrow> out = Inl ValueError \<or> (\<exists>v. out = Inr (False, v))
     \<Longrightarrow> st' = st"
  by (auto simp: remove_reaction_body_def split: sum.splits if_splits prod.splits
      dest: db_get_message_raises)

lemma send_message_body_atomic:
  "send_message_body eddsa clk s d st = (st', out) \<Longrightarrow> out = Inl ValueError \<or> (\<exists>v. out = Inr (False, v))
     \<Longrightarrow> st' = st"
  by (auto simp: send_message_body_def Let_def split: sum.splits if_splits prod.splits)

text \<open>The decorators: \<^verbatim>\<open>error_wrap\<close> answers every other exception with the catch-all.\<close>

lemma error_wrap_failure:
  "\<not> success (error_wrap out) \<Longrightarrow> result (error_wrap out) \<noteq> RStr ''Internal server error.''
     \<Longrightarrow> out = Inl ValueError \<or> (\<exists>v. out = Inr (False, v))"
  by (cases out; auto simp: error_wrap_def split: exn.splits)

lemma wrapped_atomic:
  assumes body: "\<And>d st' out. f s d st = (st', out) \<Longrightarrow>
                   out = Inl ValueError \<or> (\<exists>v. out = Inr (False, v)) \<Longrightarrow> st' = st"
    and run: "wrap_response (login_required_wrap (\<lambda>s. check_keys (f s)) s data st) = (st', r)"
    and fail: "\<not> success r" "result r \<noteq> RStr ''Internal server error.''"
  shows "st' = st"
proof (cases "logged_in s \<and> data \<noteq> None")
  case True
  then obtain d where d: "data = Some d" by auto
  obtain st1 out where f: "f s d st = (st1, out)" by (cases "f s d st")
  with True d run have "st' = st1" "r = error_wrap out"
    by (simp_all add: wrap_response_def login_required_wrap_def check_keys_def)
  with fail have "out = Inl ValueError \<or> (\<exists>v. out = Inr (False, v))"
    using error_wrap_failure by blast
  with body[OF f] \<open>st' = st1\<close> show ?thesis by simp
next
  case False
  with run show ?thesis
    by (auto simp: wrap_response_def login_required_wrap_def check_keys_def split: option.splits)
qed

lemma wrapped_parsed_atomic:
  assumes body: "\<And>st' out. f s data st = (st', out) \<Longrightarrow>
                   out = Inl ValueError \<or> (\<exists>v. out = Inr (False, v)) \<Longrightarrow> st' = st"
    and run: "wrap_response (login_required_wrap f s data st) = (st', r)"
    and fail: "\<not> success r" "result r \<noteq> RStr ''Internal server error.''"
  shows "st' = st"
proof (cases "logged_in s")
  case True
  obtain st1 out where f: "f s data st = (st1, out)" by (cases "f s data st")
  with True run have "st' = st1" "r = error_wrap out"
    by (simp_all add: wrap_response_def login_required_wrap_def)
  with fail have "out = Inl ValueError \<or> (\<exists>v. out = Inr (False, v))"
    using error_wrap_failure by blast
  with body[OF f] \<open>st' = st1\<close> show ?thesis by simp
next
  case False
  with run show ?thesis
    by (auto simp: wrap_response_def login_required_wrap_def)
qed

lemma register_atomic:
  assumes run: "register eddsa s data st = (st', r)"
    and fail: "\<not> success r" "result r \<noteq> RStr ''Internal server error.''"
  shows "st' = st"
proof (cases data)
  case None
  with run show ?thesis by (auto simp: register_def wrap_response_def check_keys_def)
next
  case (Some d)
  obtain st1 out where f: "register_body eddsa s d st = (st1, out)"
    by (cases "register_body eddsa s d st")
  with Some run have "st' = st1" "r = error_wrap out"
    by (simp_all add: register_def wrap_response_def check_keys_def)
  with fail have "out = Inl ValueError \<or> (\<exists>v. out = Inr (False, v))"
    using error_wrap_failure by blast
  with register_body_atomic[OF f] \<open>st' = st1\<close> show ?thesis by simp
qed

lemma event_atomic:
  assumes run: "event ev s req st = (st', r)"
    and fail: "\<not> success r" "result r \<noteq> RStr ''Internal server error.''"
  shows "st' = st"
proof (cases req)
  case (Register x)
  with run fail show ?thesis by (auto simp: event_def dest: register_atomic)
next
  case (Get_user x)
  with run have "get_user s x st = (st', r)" by (simp add: event_def)
  then show ?thesis unfolding get_user_def
    by (rule wrapped_atomic[rotated]) (use fail get_user_body_atomic in blast)+
next
  case (Set_user x)
  with run have "set_user (env_eddsa ev) (env_sid ev) s x st = (st', r)" by (simp add: event_def)
  then show ?thesis unfolding set_user_def
    by (rule wrapped_parsed_atomic[rotated]) (use fail set_user_body_atomic in blast)+
next
  case (Create_dm x)
  with run have "create_dm (env_clock ev) s x st = (st', r)" by (simp add: event_def)
  then show ?thesis unfolding create_dm_def
    by (rule wrapped_atomic[rotated]) (use fail create_dm_body_atomic in blast)+
next
  case (Set_dm x)
  with run have "set_dm s x st = (st', r)" by (simp add: event_def)
  then show ?thesis unfolding set_dm_def
    by (rule wrapped_atomic[rotated]) (use fail set_dm_body_atomic in blast)+
next
  case (Leave_dm x)
  with run have "leave_dm s x st = (st', r)" by (simp add: event_def)
  then show ?thesis unfolding leave_dm_def
    by (rule wrapped_atomic[rotated]) (use fail leave_dm_body_atomic in blast)+
next
  case (Send_message x)
  with run have "send_message (env_eddsa ev) (env_clock ev) s x st = (st', r)" by (simp add: event_def)
  then show ?thesis unfolding send_message_def
    by (rule wrapped_atomic[rotated]) (use fail send_message_body_atomic in blast)+
next
  case (Get_message_history x)
  with run have "get_message_history (env_strptime ev) s x st = (st', r)" by (simp add: event_def)
  then show ?thesis unfolding get_message_history_def
    by (rule wrapped_atomic[rotated]) (use fail get_message_history_body_atomic in blast)+
next
  case (Set_message x)
  with run have "set_message (env_eddsa ev) s x st = (st', r)" by (simp add: event_def)
  then show ?thesis unfolding set_message_def
    by (rule wrapped_parsed_atomic[rotated]) (use fail set_message_body_atomic in blast)+
next
  case (Cancel_scheduled_message x)
  with run have "cancel_scheduled_message s x st = (st', r)" by (simp add: event_def)
  then show ?thesis unfolding cancel_scheduled_message_def
    by (rule wrapped_atomic[rotated]) (use fail cancel_scheduled_message_body_atomic in blast)+
next
  case (Add_reaction x)
  with run have "add_reaction (env_eddsa ev) s x st = (st', r)" by (simp add: event_def)
  then show ?thesis unfolding add_reaction_def
    by (rule wrapped_atomic[rotated]) (use fail add_reaction_body_atomic in blast)+
next
  case (Remove_reaction x)
  with run have "remove_reaction s x st = (st', r)" by (simp add: event_def)
  then show ?thesis unfolding remove_reaction_def
    by (rule wrapped_atomic[rotated]) (use fail remove_reaction_body_atomic in blast)+
next
  case (Ping_typing x)
  with run have "ping_typing (env_sid ev) s x st = (st', r)" by (simp add: event_def)
  then show ?thesis unfolding ping_typing_def
    by (rule wrapped_atomic[rotated]) (use fail ping_typing_body_atomic in blast)+
next
  case (Send_friend_request x)
  with run have "send_friend_request s x st = (st', r)" by (simp add: event_def)
  then show ?thesis unfolding send_friend_request_def
    by (rule wrapped_atomic[rotated]) (use fail send_friend_request_body_atomic in blast)+
next
  case (Ack_friend_request x)
  with run have "ack_friend_request s x st = (st', r)" by (simp add: event_def)
  then show ?thesis unfolding ack_friend_request_def
    by (rule wrapped_atomic[rotated]) (use fail ack_friend_request_body_atomic in blast)+
next
  case (Unfriend x)
  with run have "unfriend s x st = (st', r)" by (simp add: event_def)
  then show ?thesis unfolding unfriend_def
    by (rule wrapped_atomic[rotated]) (use fail unfriend_body_atomic in blast)+
next
  case (Block_user x)
  with run have "block_user s x st = (st', r)" by (simp add: event_def)
  then show ?thesis unfolding block_user_def
    by (rule wrapped_atomic[rotated]) (use fail block_user_body_atomic in blast)+
next
  case (Unblock_user x)
  with run have "unblock_user s x st = (st', r)" by (simp add: event_def)
  then show ?thesis unfolding unblock_user_def
    by (rule wrapped_atomic[rotated]) (use fail unblock_user_body_atomic in blast)+
qed


text \<open>The two events of the login.\<close>

lemma login_body_state: "login_body gen u w = (w', out) \<Longrightarrow> fst w' = fst w"
  by (auto simp: login_body_def Let_def split: sum.splits if_splits prod.splits)

lemma login_join_rooms_raises: "login_join_rooms sid u st = (st1, Inl e) \<Longrightarrow> db st1 = db st"
  by (auto simp: login_join_rooms_def Let_def split: sum.splits prod.splits)

lemma login_challenge_response_body_atomic:
  "login_challenge_response_body sid resp w = (w', out) \<Longrightarrow>
     out = Inl ValueError \<or> (\<exists>v. out = Inr (False, v)) \<Longrightarrow> db (fst w') = db (fst w)"
  by (auto simp: login_challenge_response_body_def Let_def
      split: sum.splits if_splits prod.splits option.splits
      dest: login_join_rooms_raises db_get_user_raises)

lemma login_fail_wrap_atomic:
  assumes body: "\<And>w' out. f w = (w', out) \<Longrightarrow>
            out = Inl ValueError \<or> (\<exists>v. out = Inr (False, v)) \<Longrightarrow> db (fst w') = db (fst w)"
    and run: "wrap_response (login_fail_wrap f now w) = (w', r)"
    and fail: "\<not> success r" "result r \<noteq> RStr ''Internal server error.''"
  shows "db (fst w') = db (fst w)"
proof (cases "now - lockout_start (snd w) < delta")
  case True
  with run show ?thesis by (simp add: login_fail_wrap_def wrap_response_def)
next
  case False
  obtain w1 out where f: "f w = (w1, out)" by (cases "f w")
  show ?thesis
  proof (cases out)
    case (Inl e)
    with False f run have "w' = w1" "r = error_wrap (Inl e)"
      by (simp_all add: login_fail_wrap_def wrap_response_def)
    with fail have "e = ValueError" using error_wrap_failure by blast
    with body[OF f] Inl \<open>w' = w1\<close> show ?thesis by simp
  next
    case (Inr p)
    obtain ok v where p: "p = (ok, v)" by (cases p)
    obtain st1 s1 where w1: "w1 = (st1, s1)" by (cases w1)
    show ?thesis
    proof (cases ok)
      case True
      with False f Inr p w1 run fail show ?thesis
        by (auto simp: login_fail_wrap_def wrap_response_def error_wrap_def)
    next
      case no: False
      with body[OF f] Inr p w1 have "db st1 = db (fst w)" by simp
      moreover from False f Inr p w1 no run have "fst w' = st1"
        by (auto simp: login_fail_wrap_def wrap_response_def Let_def split: sum.splits if_splits)
      ultimately show ?thesis by simp
    qed
  qed
qed

lemma auth_event_atomic:
  assumes run: "auth_event gen sid now req w = (w', r)"
    and fail: "\<not> success r" "result r \<noteq> RStr ''Internal server error.''"
  shows "db (fst w') = db (fst w)"
proof (cases req)
  case (Login data)
  with run have r: "wrap_response (login_fail_wrap (check_keys (login_body gen) data) now w) = (w', r)"
    by (simp add: auth_event_def login_def)
  show ?thesis
  proof (rule login_fail_wrap_atomic[OF _ r fail])
    fix w1 out assume "check_keys (login_body gen) data w = (w1, out)"
    then show "db (fst w1) = db (fst w)"
      by (cases data) (auto simp: check_keys_def dest: login_body_state)
  qed
next
  case (Login_challenge_response data)
  with run have r: "wrap_response (login_fail_wrap
      (check_keys (login_challenge_response_body sid) data) now w) = (w', r)"
    by (simp add: auth_event_def login_challenge_response_def)
  show ?thesis
  proof (rule login_fail_wrap_atomic[OF _ r fail])
    fix w1 out
    assume "check_keys (login_challenge_response_body sid) data w = (w1, out)"
      and "out = Inl ValueError \<or> (\<exists>v. out = Inr (False, v))"
    then show "db (fst w1) = db (fst w)"
      by (cases data) (auto simp: check_keys_def dest: login_challenge_response_body_atomic)
  qed
qed

text \<open>
  Claim C6, as amended. An event (\<open>event\<close>: every handler that writes the store but
  \<^verbatim>\<open>login_challenge_response\<close>, which with \<^verbatim>\<open>login\<close> is \<open>auth_event\<close>) that answers
  \<open>success = False\<close> with a result other than the catch-all
  \<^verbatim>\<open>Internal server error.\<close> leaves the store as it was.
\<close>

theorem failed_handler_leaves_store:
  "(event ev s req st = (st', r) \<and> \<not> success r \<and> result r \<noteq> RStr ''Internal server error.''
      \<longrightarrow> db st' = db st)
   \<and> (auth_event gen sid now areq (st, s) = ((st2, s2), r2) \<and> \<not> success r2
        \<and> result r2 \<noteq> RStr ''Internal server error.''
      \<longrightarrow> db st2 = db st)"
proof (intro conjI impI)
  assume "event ev s req st = (st', r) \<and> \<not> success r \<and> result r \<noteq> RStr ''Internal server error.''"
  then have "st' = st" using event_atomic by blast
  then show "db st' = db st" by simp
next
  assume "auth_event gen sid now areq (st, s) = ((st2, s2), r2) \<and> \<not> success r2
        \<and> result r2 \<noteq> RStr ''Internal server error.''"
  then have "db (fst (st2, s2)) = db (fst (st, s))" using auth_event_atomic by blast
  then show "db st2 = db st" by simp
qed

text \<open>Alice leaves a DM that does not exist; and a wrong challenge response.\<close>

lemma ex_leave_other_dm:
  "event ex_env (ex_session ''alice'') (Leave_dm (Some 2)) (ex_state ex_dm_store)
     = (ex_state ex_dm_store, \<lparr>success = False, result = RStr ''You do not have access to that DM.''\<rparr>)"
  by (simp add: event_def leave_dm_def wrap_response_def login_required_wrap_def check_keys_def
      leave_dm_body_def session_username_def ex_session_def ex_state_def ex_dm_store_def
      ex_store_def db_dm_exists_def error_wrap_def)

lemma ex_wrong_response:
  "auth_event ex_gen ''sid1'' 0 (Login_challenge_response (Some ''wrong''))
     (ex_state ex_store, (ex_session ''alice'')\<lparr>logged_in := False, challenge_response := Some ''resp'',
        lockout_start := - 1000000000\<rparr>)
   = ((ex_state ex_store, (ex_session ''alice'')\<lparr>logged_in := False, challenge_response := None,
        lockout_start := - 1000000000, login_fails := 1\<rparr>),
      \<lparr>success = False, result = RStr ''Incorrect response. 9 attempts left before lockout.''\<rparr>)"
  by (simp add: auth_event_def login_challenge_response_def wrap_response_def login_fail_wrap_def
      check_keys_def login_challenge_response_body_def ex_session_def delta_def Let_def
      result_plus_def error_wrap_def str_int_def str_nat.simps char_of_def bit_0)

theorem failed_handler_leaves_store_witness:
  "snd (event ex_env (ex_session ''alice'') (Leave_dm (Some 2)) (ex_state ex_dm_store))
     = \<lparr>success = False, result = RStr ''You do not have access to that DM.''\<rparr>
   \<and> db (fst (event ex_env (ex_session ''alice'') (Leave_dm (Some 2)) (ex_state ex_dm_store)))
       = db (ex_state ex_dm_store)
   \<and> snd (auth_event ex_gen ''sid1'' 0 (Login_challenge_response (Some ''wrong''))
       (ex_state ex_store, (ex_session ''alice'')\<lparr>logged_in := False,
          challenge_response := Some ''resp'', lockout_start := - 1000000000\<rparr>))
     = \<lparr>success = False, result = RStr ''Incorrect response. 9 attempts left before lockout.''\<rparr>
   \<and> db (fst (fst (auth_event ex_gen ''sid1'' 0 (Login_challenge_response (Some ''wrong''))
       (ex_state ex_store, (ex_session ''alice'')\<lparr>logged_in := False,
          challenge_response := Some ''resp'', lockout_start := - 1000000000\<rparr>))))
     = db (ex_state ex_store)"
proof -
  let ?e = "event ex_env (ex_session ''alice'') (Leave_dm (Some 2)) (ex_state ex_dm_store)"
  let ?s = "(ex_session ''alice'')\<lparr>logged_in := False,
          challenge_response := Some ''resp'', lockout_start := - 1000000000\<rparr>"
  let ?a = "auth_event ex_gen ''sid1'' 0 (Login_challenge_response (Some ''wrong''))
       (ex_state ex_store, ?s)"
  have e: "?e = (fst ?e, snd ?e)" by simp
  have a: "?a = ((fst (fst ?a), snd (fst ?a)), snd ?a)" by simp
  have re: "snd ?e = \<lparr>success = False, result = RStr ''You do not have access to that DM.''\<rparr>"
    by (simp add: ex_leave_other_dm)
  have ra: "snd ?a
      = \<lparr>success = False, result = RStr ''Incorrect response. 9 attempts left before lockout.''\<rparr>"
    by (simp add: ex_wrong_response)
  have fe: "\<not> success (snd ?e)" "result (snd ?e) \<noteq> RStr ''Internal server error.''"
    by (simp_all add: re)
  have fa: "\<not> success (snd ?a)" "result (snd ?a) \<noteq> RStr ''Internal server error.''"
    by (simp_all add: ra)
  from failed_handler_leaves_store[of ex_env "ex_session ''alice''" "Leave_dm (Some 2)"
      "ex_state ex_dm_store" "fst ?e" "snd ?e" ex_gen "''sid1''" 0
      "Login_challenge_response (Some ''wrong'')" "fst (fst ?a)" "snd (fst ?a)" "snd ?a"]
  have "(?e = (fst ?e, snd ?e) \<and> \<not> success (snd ?e)
          \<and> result (snd ?e) \<noteq> RStr ''Internal server error.''
        \<longrightarrow> db (fst ?e) = db (ex_state ex_dm_store))" by blast
  with e fe have c1: "db (fst ?e) = db (ex_state ex_dm_store)" by blast
  from failed_handler_leaves_store[of ex_env ?s "Leave_dm (Some 2)"
      "ex_state ex_store" "fst ?e" "snd ?e" ex_gen "''sid1''" 0
      "Login_challenge_response (Some ''wrong'')" "fst (fst ?a)" "snd (fst ?a)" "snd ?a"]
  have "(?a = ((fst (fst ?a), snd (fst ?a)), snd ?a) \<and> \<not> success (snd ?a)
          \<and> result (snd ?a) \<noteq> RStr ''Internal server error.''
        \<longrightarrow> db (fst (fst ?a)) = db (ex_state ex_store))" by blast
  with a fa have c2: "db (fst (fst ?a)) = db (ex_state ex_store)" by blast
  show ?thesis using re ra c1 c2 by simp
qed

text \<open>
  Claim C6, as stated, fails when the last member of a DM leaves it: \<^verbatim>\<open>db.leave_dm\<close>
  commits, \<^verbatim>\<open>db.get_dm\<close> then raises \<^verbatim>\<open>IndexError\<close> on \<^verbatim>\<open>q[0]\<close>, the event answers
  \<^verbatim>\<open>Internal server error.\<close>, and the membership row is gone.
\<close>

theorem leave_dm_last_member_not_rolled_back:
  "snd (event ex_env (ex_session ''alice'') (Leave_dm (Some 1)) (ex_state ex_solo_store))
     = \<lparr>success = False, result = RStr ''Internal server error.''\<rparr>
   \<and> userdm (db (ex_state ex_solo_store)) = [(1, ''alice'')]
   \<and> userdm (db (fst (event ex_env (ex_session ''alice'') (Leave_dm (Some 1))
        (ex_state ex_solo_store)))) = []"
  by (simp add: event_def leave_dm_def wrap_response_def login_required_wrap_def check_keys_def
      leave_dm_body_def session_username_def ex_session_def ex_state_def ex_solo_store_def
      ex_store_def db_dm_exists_def db_user_in_dm_def db_leave_dm_def db_get_user_def
      db_get_dm_def dm_rows_def error_wrap_def ex_user_def)


end
